theory Spec2Isabelle
  imports Complex_Main "HOL-Library.Sublist"
begin

section \<open>Python string helpers\<close>

text \<open>
  Strings are ASCII character lists.  \<open>lower\<close> and \<open>upper\<close> follow \<open>str.lower\<close> and
  \<open>str.upper\<close> on the ASCII letters; \<open>prefix\<close> is \<open>str.startswith\<close> and \<open>sublist\<close> is the
  substring test \<open>a in b\<close>.  A capital letter has code 65 to 90, where bit 5 is clear, and
  its small letter is 32 higher: bit 5 set.  A small letter has code 97 to 122.
\<close>

definition lower_char :: "char \<Rightarrow> char" where
  "lower_char c =
     (if 65 \<le> (of_char c :: nat) \<and> (of_char c :: nat) \<le> 90
      then (case c of Char b0 b1 b2 b3 b4 b5 b6 b7 \<Rightarrow> Char b0 b1 b2 b3 b4 True b6 b7)
      else c)"

definition upper_char :: "char \<Rightarrow> char" where
  "upper_char c =
     (if 97 \<le> (of_char c :: nat) \<and> (of_char c :: nat) \<le> 122
      then (case c of Char b0 b1 b2 b3 b4 b5 b6 b7 \<Rightarrow> Char b0 b1 b2 b3 b4 False b6 b7)
      else c)"

definition lower :: "string \<Rightarrow> string" where
  "lower s = map lower_char s"

definition upper :: "string \<Rightarrow> string" where
  "upper s = map upper_char s"

text \<open>\<open>sep.join(parts)\<close>.\<close>

fun join :: "string \<Rightarrow> string list \<Rightarrow> string" where
  "join sep [] = []"
| "join sep [x] = x"
| "join sep (x # y # ys) = x @ sep @ join sep (y # ys)"

text \<open>Truthiness of an \<open>Optional[str]\<close>: \<open>None\<close> and the empty string are falsy.\<close>

fun truthy :: "string option \<Rightarrow> bool" where
  "truthy None = False"
| "truthy (Some s) = (s \<noteq> [])"

text \<open>\<open>a or b\<close> on optional strings.\<close>

definition py_or :: "string option \<Rightarrow> string option \<Rightarrow> string option" where
  "py_or a b = (if truthy a then a else b)"

text \<open>\<open>x or ""\<close> and \<open>x or dev\<close>: an optional string with a string default.\<close>

definition or_str :: "string option \<Rightarrow> string \<Rightarrow> string" where
  "or_str a d = (case a of Some s \<Rightarrow> (if s \<noteq> [] then s else d) | None \<Rightarrow> d)"

section \<open>Exceptions\<close>

datatype exn =
    OSError string
  | SerialException string
  | AttributeError string
  | JSONDecodeError string
  | IndexError string

text \<open>\<open>str(e)\<close>.\<close>

fun str_exn :: "exn \<Rightarrow> string" where
  "str_exn (OSError m) = m"
| "str_exn (SerialException m) = m"
| "str_exn (AttributeError m) = m"
| "str_exn (JSONDecodeError m) = m"
| "str_exn (IndexError m) = m"

section \<open>Python values\<close>

text \<open>
  A value as \<open>json.load\<close> returns it; \<open>JNull\<close> is Python's \<open>None\<close>.  A \<open>JObj\<close> is a Python
  dict and lists each key once.  What the cache file holds under \<open>last_good_port\<close> is
  kept and used as a port whatever it is, so a port handed to \<open>DeviceController\<close> or
  written to the file is such a value; a port that is a string \<open>p\<close> is \<open>JStr p\<close>.
\<close>

datatype json =
    JNull
  | JBool bool
  | JNum real
  | JStr string
  | JArr "json list"
  | JObj "(string \<times> json) list"

fun json_truthy :: "json \<Rightarrow> bool" where
  "json_truthy JNull = False"
| "json_truthy (JBool b) = b"
| "json_truthy (JNum x) = (x \<noteq> 0)"
| "json_truthy (JStr s) = (s \<noteq> [])"
| "json_truthy (JArr xs) = (xs \<noteq> [])"
| "json_truthy (JObj kv) = (kv \<noteq> [])"

text \<open>\<open>d.get(k)\<close>.\<close>

definition dict_get :: "(string \<times> json) list \<Rightarrow> string \<Rightarrow> json" where
  "dict_get kv k = (case map_of kv k of Some v \<Rightarrow> v | None \<Rightarrow> JNull)"

text \<open>Truthiness of an optional value.\<close>

fun truthy_val :: "json option \<Rightarrow> bool" where
  "truthy_val None = False"
| "truthy_val (Some v) = json_truthy v"

section \<open>Enumerated ports and candidates\<close>

text \<open>
  What \<open>list_ports.comports()\<close> yields for one port: \<open>device\<close> and \<open>description\<close> are read as
  attributes, the others through \<open>getattr(p, name, None)\<close>.
\<close>

record port_info =
  device :: string
  pi_description :: "string option"
  pi_manufacturer :: "string option"
  pi_product :: "string option"
  pi_serial_number :: "string option"
  pi_vid :: "int option"
  pi_pid :: "int option"
  pi_hwid :: "string option"
  interface :: "string option"

text \<open>
  An entry of the listing is either a port whose attributes can be read or a malformed
  object on which reading \<open>p.device\<close> raises.
\<close>

datatype raw_port = Malformed | Port port_info

text \<open>The dictionary \<open>detect_candidates\<close> builds for one port.\<close>

record candidate =
  path :: string
  description :: string
  manufacturer :: "string option"
  product :: "string option"
  serial_number :: "string option"
  vid :: "int option"
  pid :: "int option"
  hwid :: "string option"
  is_bluetooth :: bool
  is_legacy :: bool
  score :: int
  friendly :: string

section \<open>The environment of one call\<close>

text \<open>
  Modelled from the spec: the device session of \<open>controllers/device_controller.py\<close>, which
  is not among the sources.  The spec gives its interface: construct-with-port (fails if the
  port cannot be opened) and \<open>identify\<close>, returning a mapping with at least \<open>port\<close> and
  optionally \<open>hwModel\<close> and \<open>firmwareVersion\<close>.  A session is represented by the mapping
  its \<open>identity()\<close> returns.
\<close>

record session =
  ident :: "(string \<times> string) list"

datatype write_outcome = WriteOk | OpenDenied | DumpFails

text \<open>
  Everything the controller asks of its surroundings.  \<open>dev_open n port\<close> is the outcome
  of the \<open>n\<close>-th construction \<open>DeviceController(port=port)\<close> (counted from 0 over the life of
  the world, so the same port may fail now and open later); \<open>joined n t\<close> says whether the
  probe worker of that construction finished before \<open>join(timeout=t)\<close> returned;
  \<open>monotonic k\<close> is the \<open>k\<close>-th reading of \<open>time.monotonic()\<close>, taken as a real number.
\<close>

record env =
  os_name :: string
  platform_system :: string
  comports :: "exn + raw_port list"
  dev_open :: "nat \<Rightarrow> json \<Rightarrow> exn + session"
  joined :: "nat \<Rightarrow> real \<Rightarrow> bool"
  monotonic :: "nat \<Rightarrow> real"
  fs_write :: write_outcome

section \<open>Scoring\<close>

definition known_vendors :: "int set" where
  "known_vendors = {0x10C4, 0x1A86, 0x0403, 0x2E8A}"

definition typical_strings :: "string list" where
  "typical_strings = [''usb'', ''uart'', ''cp210'', ''ch340'', ''ftdi'', ''silicon labs'', ''serial'']"

definition score_port ::
  "string \<Rightarrow> int option \<Rightarrow> int option \<Rightarrow> string option \<Rightarrow> string option \<Rightarrow> string option
     \<Rightarrow> bool \<Rightarrow> bool \<Rightarrow> int" where
  "score_port dev v p desc manu prd is_bt is_leg =
     (let s0 = 0;
          s1 = (if v \<noteq> None \<and> p \<noteq> None then s0 + 50 else s0);
          s2 = (if (case v of Some x \<Rightarrow> x \<in> known_vendors | None \<Rightarrow> False) then s1 + 20 else s1);
          s3 = (if prefix ''/dev/ttyUSB'' dev \<or> prefix ''/dev/ttyACM'' dev then s2 + 10 else s2);
          s4 = (if prefix ''/dev/tty.'' dev then s3 + 5 else s3);
          s5 = (if is_bt then s4 - 30 else s4);
          s6 = (if is_leg then s5 - 15 else s5);
          s = join '' '' [or_str desc '''', or_str manu '''', or_str prd '''']
      in if list_ex (\<lambda>k. sublist k (lower s)) typical_strings then s6 + 5 else s6)"

section \<open>Detection\<close>

text \<open>The body of the loop over the listed ports; a malformed entry raises.\<close>

definition build_candidate :: "env \<Rightarrow> raw_port \<Rightarrow> exn + candidate" where
  "build_candidate e rp =
     (case rp of
        Malformed \<Rightarrow> Inl (AttributeError ''device'')
      | Port p \<Rightarrow>
          (let dev = device p;
               desc = or_str (pi_description p) dev;
               manu = pi_manufacturer p;
               prd = pi_product p;
               sn = pi_serial_number p;
               iface = interface p;
               is_bt = list_ex (\<lambda>s. truthy s \<and> sublist ''bluetooth'' (lower (the s)))
                         [Some desc, manu, prd, iface];
               is_leg = (os_name e = ''nt'' \<and> prefix ''COM1'' (upper dev));
               sc = score_port dev (pi_vid p) (pi_pid p) (Some desc) manu prd is_bt is_leg;
               parts = [if truthy prd then the prd
                        else if truthy manu then the manu else desc]
                       @ [''Port: '' @ dev]
                       @ (if truthy manu then [''Manufacturer: '' @ the manu] else [])
                       @ (if truthy sn then [''Serial: '' @ the sn] else [])
           in Inr \<lparr> path = dev,
                    description = join '' | '' (map the (filter truthy [Some desc, manu, prd])),
                    manufacturer = manu,
                    product = prd,
                    serial_number = sn,
                    vid = pi_vid p,
                    pid = pi_pid p,
                    hwid = pi_hwid p,
                    is_bluetooth = is_bt,
                    is_legacy = is_leg,
                    score = sc,
                    friendly = join [CHR 0x0A] parts \<rparr>))"

text \<open>The loop: an entry whose body raises is skipped.\<close>

fun collect :: "env \<Rightarrow> raw_port list \<Rightarrow> candidate list" where
  "collect e [] = []"
| "collect e (rp # rps) =
     (case build_candidate e rp of
        Inl _ \<Rightarrow> collect e rps
      | Inr c \<Rightarrow> c # collect e rps)"

text \<open>The macOS nudge, for one candidate: both tests are made, one after the other.\<close>

definition darwin_nudge :: "candidate \<Rightarrow> candidate" where
  "darwin_nudge c =
     (let c1 = (if prefix ''/dev/tty.'' (path c) then c\<lparr>score := score c + 5\<rparr> else c)
      in if prefix ''/dev/cu.'' (path c1) then c1\<lparr>score := score c1 - 2\<rparr> else c1)"

text \<open>The Windows demotion of Bluetooth, for one candidate.\<close>

definition nt_downrank :: "candidate \<Rightarrow> candidate" where
  "nt_downrank c = (if is_bluetooth c then c\<lparr>score := score c - 25\<rparr> else c)"

text \<open>The two platform loops over \<open>out\<close>, macOS first, then Windows.\<close>

definition platform_adjust :: "env \<Rightarrow> candidate list \<Rightarrow> candidate list" where
  "platform_adjust e out =
     (let out1 = (if lower (platform_system e) = ''darwin'' then map darwin_nudge out else out)
      in if os_name e = ''nt'' then map nt_downrank out1 else out1)"

text \<open>The list \<open>out\<close> as it stands just before it is sorted, in enumeration order.\<close>

definition adjusted :: "env \<Rightarrow> raw_port list \<Rightarrow> candidate list" where
  "adjusted e ports = platform_adjust e (collect e ports)"

text \<open>The well-formed entries of a listing, in the order of the listing.\<close>

fun well_formed :: "raw_port list \<Rightarrow> port_info list" where
  "well_formed [] = []"
| "well_formed (Malformed # rps) = well_formed rps"
| "well_formed (Port p # rps) = p # well_formed rps"

text \<open>
  \<open>out.sort(key=score, reverse=True)\<close>: Python's sort is stable, also with \<open>reverse=True\<close>,
  so it is the stable sort on the negated key.
\<close>

definition sort_desc :: "candidate list \<Rightarrow> candidate list" where
  "sort_desc out = sort_key (\<lambda>d. - score d) out"

definition detect_candidates :: "env \<Rightarrow> exn + candidate list" where
  "detect_candidates e =
     (case comports e of
        Inl ex \<Rightarrow> Inl ex
      | Inr ports \<Rightarrow> Inr (sort_desc (adjusted e ports)))"

section \<open>The persisted preference\<close>

text \<open>
  The file at the cache path: absent (\<open>os.path.isfile\<close> is false), present but failing to
  open or decode, present with text that is not JSON, or holding a JSON document.
\<close>

datatype cache_state = Missing | Unreadable | Garbled | Holds json

text \<open>
  What happens outside the controller, in order.  \<open>DevOpen port ok\<close> is a construction
  \<open>DeviceController(port=port)\<close> made by \<open>try_connect\<close> and whether it succeeded,
  \<open>ProbeOpen port\<close> the one made by a probe's worker; \<open>FsWrite port\<close> is an attempt to
  write the cache file.
\<close>

datatype event =
    DevOpen json bool
  | ProbeOpen string
  | FsIsFile
  | FsRead
  | FsWrite json

record world =
  cache_file :: cache_state
  opens :: nat
  ticks :: nat
  trace :: "event list"

text \<open>The body of the \<open>try\<close> in \<open>_load_last_good_port\<close>.\<close>

definition load_body :: "cache_state \<Rightarrow> exn + json" where
  "load_body f =
     (case f of
        Missing \<Rightarrow> Inr JNull
      | Unreadable \<Rightarrow> Inl (OSError ''open'')
      | Garbled \<Rightarrow> Inl (JSONDecodeError ''load'')
      | Holds v \<Rightarrow>
          (let data = (if json_truthy v then v else JObj [])
           in case data of
                JObj kv \<Rightarrow> Inr (dict_get kv ''last_good_port'')
              | _ \<Rightarrow> Inl (AttributeError ''get'')))"

definition load_last_good_port :: "world \<Rightarrow> json \<times> world" where
  "load_last_good_port w =
     (let w1 = w\<lparr>trace := trace w @
                  (if cache_file w = Missing then [FsIsFile] else [FsIsFile, FsRead])\<rparr>
      in case load_body (cache_file w) of
           Inl _ \<Rightarrow> (JNull, w1)
         | Inr v \<Rightarrow> (v, w1))"

definition save_last_good_port :: "env \<Rightarrow> json \<Rightarrow> world \<Rightarrow> world" where
  "save_last_good_port e port w =
     (let w1 = w\<lparr>trace := trace w @ [FsWrite port]\<rparr>
      in case fs_write e of
           WriteOk \<Rightarrow> w1\<lparr>cache_file := Holds (JObj [(''last_good_port'', port)])\<rparr>
         | OpenDenied \<Rightarrow> w1
         | DumpFails \<Rightarrow> w1\<lparr>cache_file := Garbled\<rparr>)"

section \<open>The controller\<close>

record error_rec =
  code :: string
  detail :: string
  candidates :: "candidate list option"

record ctrl =
  explicit_port :: "string option"
  dc :: "session option"
  last_error :: "error_rec option"
  last_good_port :: json
  probe_recent :: "string \<Rightarrow> real option"

text \<open>
  \<open>__init__\<close>.  The field \<open>_last_good_port\<close> takes whatever \<open>_load_last_good_port\<close>
  returns, a string or not.
\<close>

definition settings_controller_init :: "string option \<Rightarrow> world \<Rightarrow> ctrl \<times> world" where
  "settings_controller_init explicit w =
     (case load_last_good_port w of
        (v, w1) \<Rightarrow>
          (\<lparr> explicit_port = explicit,
             dc = None,
             last_error = None,
             last_good_port = v,
             probe_recent = Map.empty \<rparr>, w1))"

definition try_connect :: "env \<Rightarrow> json \<Rightarrow> ctrl \<Rightarrow> world \<Rightarrow> json option \<times> ctrl \<times> world" where
  "try_connect e port s w =
     (case dev_open e (opens w) port of
        Inr sess \<Rightarrow>
          (Some port, s\<lparr>dc := Some sess\<rparr>,
           save_last_good_port e port
             (w\<lparr>opens := Suc (opens w), trace := trace w @ [DevOpen port True]\<rparr>))
      | Inl ex \<Rightarrow>
          (None,
           s\<lparr>last_error := Some \<lparr>code = ''open_failed'', detail = str_exn ex, candidates = None\<rparr>,
             dc := None\<rparr>,
           w\<lparr>opens := Suc (opens w), trace := trace w @ [DevOpen port False]\<rparr>))"

text \<open>
  \<open>_probe_port\<close>.  The worker thread constructs the controller, asks for the identity and
  closes; the caller waits at most \<open>timeout_s\<close> and then reads the clock a second time.
\<close>

definition probe_port ::
  "env \<Rightarrow> string \<Rightarrow> real \<Rightarrow> ctrl \<Rightarrow> world \<Rightarrow> bool \<times> ctrl \<times> world" where
  "probe_port e port timeout_s s w =
     (let last = (case probe_recent s port of Some t \<Rightarrow> t | None \<Rightarrow> 0);
          now = monotonic e (ticks w);
          w0 = w\<lparr>ticks := Suc (ticks w)\<rparr>
      in if now - last < 5 then (False, s, w0)
         else
           (let n = opens w0;
                w1 = w0\<lparr>opens := Suc n, trace := trace w0 @ [ProbeOpen port]\<rparr>;
                ok = (case dev_open e n (JStr port) of
                        Inl _ \<Rightarrow> False
                      | Inr sess \<Rightarrow>
                          joined e n timeout_s \<and>
                          list_ex (\<lambda>k. truthy (map_of (ident sess) k))
                            [''hwModel'', ''firmwareVersion'']);
                fin = monotonic e (ticks w1);
                w2 = w1\<lparr>ticks := Suc (ticks w1)\<rparr>
            in (ok, s\<lparr>probe_recent := (probe_recent s)(port \<mapsto> fin)\<rparr>, w2)))"

text \<open>The loop of step 5 over \<open>cands_use[:3]\<close>, collecting the candidates that verify.\<close>

fun probe_each ::
  "env \<Rightarrow> candidate list \<Rightarrow> ctrl \<Rightarrow> world \<Rightarrow> candidate list \<times> ctrl \<times> world" where
  "probe_each e [] s w = ([], s, w)"
| "probe_each e (cand # rest) s w =
     (case probe_port e (path cand) 4 s w of
        (ok, s1, w1) \<Rightarrow>
          (case probe_each e rest s1 w1 of
             (vs, s2, w2) \<Rightarrow> ((if ok then cand # vs else vs), s2, w2)))"

type_synonym resolution = "(exn + (json option \<times> candidate list)) \<times> ctrl \<times> world"

text \<open>Steps 5 and 6: probe the top three, connect to a single verified one, else hand back.\<close>

definition probe_and_connect :: "env \<Rightarrow> candidate list \<Rightarrow> ctrl \<Rightarrow> world \<Rightarrow> resolution" where
  "probe_and_connect e cands_use s w =
     (case probe_each e (take 3 cands_use) s w of
        (verified, s1, w1) \<Rightarrow>
          (case verified of
             [v] \<Rightarrow>
               (case try_connect e (JStr (path v)) s1 w1 of
                  (p, s2, w2) \<Rightarrow>
                    if truthy_val p then (Inr (p, []), s2, w2)
                    else (Inr (None, cands_use), s2, w2))
           | _ \<Rightarrow> (Inr (None, cands_use), s1, w1)))"

text \<open>The Bluetooth filter and step 4, on the enumerated candidates.\<close>

definition resolve_candidates :: "env \<Rightarrow> candidate list \<Rightarrow> ctrl \<Rightarrow> world \<Rightarrow> resolution" where
  "resolve_candidates e cands s w =
     (let non_bt = filter (\<lambda>c. \<not> is_bluetooth c) cands;
          cands_use = (if non_bt \<noteq> [] then non_bt else cands)
      in case cands_use of
           [] \<Rightarrow> (Inl (IndexError ''list index out of range''), s, w)
         | topc # _ \<Rightarrow>
             if length cands_use = 1 \<and> 40 \<le> score topc
             then (case try_connect e (JStr (path topc)) s w of
                     (p, s1, w1) \<Rightarrow>
                       if truthy_val p then (Inr (p, []), s1, w1)
                       else probe_and_connect e cands_use s1 w1)
             else probe_and_connect e cands_use s w)"

text \<open>Step 3 and the empty case.\<close>

definition enumerate_and_resolve :: "env \<Rightarrow> ctrl \<Rightarrow> world \<Rightarrow> resolution" where
  "enumerate_and_resolve e s w =
     (case detect_candidates e of
        Inl ex \<Rightarrow>
          (Inr (None, []),
           s\<lparr>last_error := Some \<lparr>code = ''open_failed'', detail = str_exn ex, candidates = None\<rparr>\<rparr>,
           w)
      | Inr cands \<Rightarrow>
          if length cands = 0
          then (Inr (None, []),
                s\<lparr>last_error := Some \<lparr>code = ''no_candidates'',
                                       detail = ''No serial devices found'',
                                       candidates = None\<rparr>\<rparr>,
                w)
          else resolve_candidates e cands s w)"

text \<open>Step 1 and step 2, each an attempt made only when the port is truthy.\<close>

definition try_explicit :: "env \<Rightarrow> ctrl \<Rightarrow> world \<Rightarrow> json option \<times> ctrl \<times> world" where
  "try_explicit e s w =
     (case explicit_port s of
        Some port \<Rightarrow> if port \<noteq> [] then try_connect e (JStr port) s w else (None, s, w)
      | None \<Rightarrow> (None, s, w))"

definition try_last_good :: "env \<Rightarrow> ctrl \<Rightarrow> world \<Rightarrow> json option \<times> ctrl \<times> world" where
  "try_last_good e s w =
     (if json_truthy (last_good_port s) then try_connect e (last_good_port s) s w
      else (None, s, w))"

definition auto_connect_or_candidates :: "env \<Rightarrow> ctrl \<Rightarrow> world \<Rightarrow> resolution" where
  "auto_connect_or_candidates e s0 w =
     (let s = s0\<lparr>last_error := None\<rparr>
      in case dc s of
           Some sess \<Rightarrow>
             (Inr (map_option JStr (py_or (map_of (ident sess) ''port'') (explicit_port s)), []),
              s, w)
         | None \<Rightarrow>
             (case try_explicit e s w of
                (p1, s1, w1) \<Rightarrow>
                  if truthy_val p1 then (Inr (p1, []), s1, w1)
                  else
                    (case try_last_good e s1 w1 of
                       (p2, s2, w2) \<Rightarrow>
                         if truthy_val p2 then (Inr (p2, []), s2, w2)
                         else enumerate_and_resolve e s2 w2)))"

definition connect_autodetect_if_single ::
  "env \<Rightarrow> ctrl \<Rightarrow> world \<Rightarrow> (exn + json option) \<times> ctrl \<times> world" where
  "connect_autodetect_if_single e s w =
     (case auto_connect_or_candidates e s w of
        (Inl ex, s1, w1) \<Rightarrow> (Inl ex, s1, w1)
      | (Inr (port, cands), s1, w1) \<Rightarrow>
          if truthy_val port then (Inr port, s1, w1)
          else if cands = [] then (Inr None, s1, w1)
          else (Inr None,
                s1\<lparr>last_error := Some \<lparr>code = ''multiple_candidates'',
                                        detail = ''Multiple serial devices found'',
                                        candidates = Some cands\<rparr>\<rparr>,
                w1))"

text \<open>\<open>last_error()\<close>.\<close>

definition last_error_query :: "ctrl \<Rightarrow> error_rec option" where
  "last_error_query s = last_error s"

section \<open>Properties of traces and outcomes\<close>

fun is_read :: "event \<Rightarrow> bool" where
  "is_read FsIsFile = True"
| "is_read FsRead = True"
| "is_read _ = False"

fun is_write :: "event \<Rightarrow> bool" where
  "is_write (FsWrite _) = True"
| "is_write _ = False"

text \<open>
  Every write of the cache file in a stretch of trace comes right after a successful
  \<open>DeviceController\<close> construction by \<open>try_connect\<close> on the port written; \<open>prev\<close> is the
  event before the stretch.
\<close>

fun written_after_open :: "event option \<Rightarrow> event list \<Rightarrow> bool" where
  "written_after_open prev [] = True"
| "written_after_open prev (FsWrite p # es) =
     (prev = Some (DevOpen p True) \<and> written_after_open (Some (FsWrite p)) es)"
| "written_after_open prev (ev # es) = written_after_open (Some ev) es"

text \<open>
  What a step may do to the preference: the controller's last-good port stays, the trace
  grows by a stretch without reads in which every write follows a successful open, and the
  file is as before unless the stretch holds a write.
\<close>

definition frame_step :: "ctrl \<Rightarrow> world \<Rightarrow> ctrl \<Rightarrow> world \<Rightarrow> bool" where
  "frame_step s w s' w' =
     (last_good_port s' = last_good_port s \<and>
      (\<exists>t. trace w' = trace w @ t \<and> written_after_open None t \<and> \<not> list_ex is_read t
           \<and> (list_ex is_write t \<or> cache_file w' = cache_file w)))"

text \<open>
  The three ways a resolution ends: connected to a truthy port with no candidates,
  candidates handed back, or nothing with the error recorded.
\<close>

definition outcome_ok :: "(exn + (json option \<times> candidate list)) \<Rightarrow> ctrl \<Rightarrow> bool" where
  "outcome_ok r s' =
     ((\<exists>p. json_truthy p \<and> r = Inr (Some p, []))
      \<or> (\<exists>cu. cu \<noteq> [] \<and> r = Inr (None, cu))
      \<or> (r = Inr (None, []) \<and>
          ((\<exists>d. last_error s' = Some \<lparr>code = ''open_failed'', detail = d, candidates = None\<rparr>)
           \<or> last_error s' = Some \<lparr>code = ''no_candidates'', detail = ''No serial devices found'',
                                     candidates = None\<rparr>)))"

section \<open>Example inputs\<close>

definition usb_port :: port_info where
  "usb_port = \<lparr> device = ''/dev/ttyUSB0'', pi_description = Some ''CP2102 USB to UART Bridge'',
      pi_manufacturer = Some ''Silicon Labs'', pi_product = None,
      pi_serial_number = Some ''0001'', pi_vid = Some 0x10C4, pi_pid = Some 0xEA60,
      pi_hwid = None, interface = None \<rparr>"

definition bt_port :: port_info where
  "bt_port = \<lparr> device = ''/dev/rfcomm0'', pi_description = None,
      pi_manufacturer = None, pi_product = None, pi_serial_number = None,
      pi_vid = None, pi_pid = None, pi_hwid = None, interface = Some ''Bluetooth'' \<rparr>"

definition plain_port :: "string \<Rightarrow> port_info" where
  "plain_port dev = \<lparr> device = dev, pi_description = None,
      pi_manufacturer = None, pi_product = None, pi_serial_number = None,
      pi_vid = None, pi_pid = None, pi_hwid = None, interface = None \<rparr>"

definition demo_session :: session where
  "demo_session = \<lparr> ident = [(''port'', ''/dev/ttyUSB0''), (''hwModel'', ''TBEAM'')] \<rparr>"

text \<open>
  A Linux machine on which only \<open>/dev/ttyUSB0\<close> opens, the cache file can be written and
  the clock stands at 100 seconds at its first reading.
\<close>

definition demo_env :: "(exn + raw_port list) \<Rightarrow> env" where
  "demo_env listing = \<lparr> os_name = ''posix'', platform_system = ''Linux'', comports = listing,
      dev_open = (\<lambda>n p. if p = JStr ''/dev/ttyUSB0'' then Inr demo_session
                         else Inl (SerialException ''could not open port'')),
      joined = (\<lambda>n t. True),
      monotonic = (\<lambda>k. 100 + real k),
      fs_write = WriteOk \<rparr>"

definition demo_world :: world where
  "demo_world = \<lparr> cache_file = Missing, opens = 0, ticks = 0, trace = [] \<rparr>"

definition demo_ctrl :: ctrl where
  "demo_ctrl = \<lparr> explicit_port = Some ''/dev/ttyS9'', dc = None, last_error = None,
      last_good_port = JNull, probe_recent = Map.empty \<rparr>"

text \<open>A listing with two ports of equal score around a better one and a malformed entry.\<close>

definition tie_listing :: "raw_port list" where
  "tie_listing = [Port (plain_port ''/dev/ttyS0''), Port usb_port, Malformed,
                  Port (plain_port ''/dev/ttyS1'')]"

text \<open>A listing with one Bluetooth port, a malformed entry and one USB bridge.\<close>

definition single_listing :: "raw_port list" where
  "single_listing = [Port bt_port, Malformed, Port usb_port]"

text \<open>The same machine seen as Windows.\<close>

definition nt_env :: env where
  "nt_env = (demo_env (Inr single_listing))\<lparr>os_name := ''nt''\<rparr>"

text \<open>A controller that holds a session, and one that probed \<open>/dev/ttyUSB0\<close> at 98 seconds.\<close>

definition connected_ctrl :: ctrl where
  "connected_ctrl = demo_ctrl\<lparr>dc := Some demo_session\<rparr>"

definition probed_ctrl :: ctrl where
  "probed_ctrl = demo_ctrl\<lparr>probe_recent := [''/dev/ttyUSB0'' \<mapsto> 98]\<rparr>"

text \<open>The controller and the world after a probe of \<open>/dev/ttyUSB0\<close> was carried out.\<close>

definition after_probe_ctrl :: ctrl where
  "after_probe_ctrl = demo_ctrl\<lparr>probe_recent := [''/dev/ttyUSB0'' \<mapsto> 101]\<rparr>"

definition after_probe_world :: world where
  "after_probe_world =
     demo_world\<lparr>opens := 1, ticks := 2, trace := [ProbeOpen ''/dev/ttyUSB0'']\<rparr>"

definition fresh_ctrl :: ctrl where
  "fresh_ctrl = demo_ctrl\<lparr>explicit_port := None\<rparr>"

definition ambiguous_listing :: "raw_port list" where
  "ambiguous_listing = [Port (plain_port ''/dev/ttyS0''), Port (plain_port ''/dev/ttyS1'')]"

definition failed_listing :: "exn + raw_port list" where
  "failed_listing = Inl (OSError ''listing failed'')"

text \<open>The controller and the world after the explicit port \<open>/dev/ttyS9\<close> failed to open.\<close>

definition failed_ctrl :: ctrl where
  "failed_ctrl = demo_ctrl\<lparr>last_error :=
      Some \<lparr>code = ''open_failed'', detail = ''could not open port'', candidates = None\<rparr>\<rparr>"

definition failed_world :: world where
  "failed_world = demo_world\<lparr>opens := 1, trace := [DevOpen (JStr ''/dev/ttyS9'') False]\<rparr>"

definition usb_cand :: candidate where
  "usb_cand = projr (build_candidate (demo_env (Inr single_listing)) (Port usb_port))"

text \<open>The same machine with a cache file that cannot be opened for writing.\<close>

definition denied_env :: env where
  "denied_env = (demo_env (Inr single_listing))\<lparr>fs_write := OpenDenied\<rparr>"

text \<open>
  A machine that lists one port with an empty device path and both USB identifiers, and
  on which every port opens.
\<close>

definition empty_path_env :: env where
  "empty_path_env =
     (demo_env (Inr [Port ((plain_port [])\<lparr>pi_vid := Some 1, pi_pid := Some 1\<rparr>)]))
       \<lparr>dev_open := (\<lambda>n p. Inr demo_session)\<rparr>"

text \<open>A clock that reads 102.95 seconds first and a tenth of a second more each time.\<close>

definition tenth_env :: env where
  "tenth_env = (demo_env (Inr single_listing))\<lparr>monotonic := (\<lambda>k. 10295 / 100 + real k / 10)\<rparr>"

text \<open>A cache file that holds a number as the last-good port.\<close>

definition number_world :: world where
  "number_world = demo_world\<lparr>cache_file := Holds (JObj [(''last_good_port'', JNum 123)])\<rparr>"

text \<open>No error recorded, or the record of a failed open.\<close>

definition none_or_open_failed :: "error_rec option \<Rightarrow> bool" where
  "none_or_open_failed er =
     (er = None
      \<or> (\<exists>d. er = Some \<lparr>code = ''open_failed'', detail = d, candidates = None\<rparr>))"

section \<open>The letters move by 32\<close>

lemma lower_char_add:
  "65 \<le> (of_char c :: nat) \<Longrightarrow> (of_char c :: nat) \<le> 90 \<Longrightarrow>
   (of_char (lower_char c) :: nat) = of_char c + 32"
  apply (cases c)
  subgoal for b0 b1 b2 b3 b4 b5 b6 b7
    apply (cases b0; cases b1; cases b2; cases b3; cases b4; cases b5; cases b6; cases b7)
    apply (simp_all add: lower_char_def)
    done
  done

lemma upper_char_sub:
  "97 \<le> (of_char c :: nat) \<Longrightarrow> (of_char c :: nat) \<le> 122 \<Longrightarrow>
   (of_char (upper_char c) :: nat) = of_char c - 32"
  apply (cases c)
  subgoal for b0 b1 b2 b3 b4 b5 b6 b7
    apply (cases b0; cases b1; cases b2; cases b3; cases b4; cases b5; cases b6; cases b7)
    apply (simp_all add: upper_char_def)
    done
  done

section \<open>Detection: order of the result\<close>

lemma collect_paths: "map path (collect e ports) = map device (well_formed ports)"
  by (induction ports rule: well_formed.induct) (auto simp: build_candidate_def Let_def)

lemma platform_adjust_paths: "map path (platform_adjust e out) = map path out"
  by (auto simp: platform_adjust_def Let_def darwin_nudge_def nt_downrank_def)

lemma sort_desc_descending: "sorted_wrt (\<lambda>a b. score b \<le> score a) (sort_desc out)"
proof -
  have "sorted (map (\<lambda>d. - score d) (sort_desc out))"
    unfolding sort_desc_def by (rule sorted_sort_key)
  then show ?thesis
    by (simp add: sorted_map sorted_wrt_iff_nth_less)
qed

lemma sort_desc_stable:
  "filter (\<lambda>c. score c = k) (sort_desc out) = filter (\<lambda>c. score c = k) out"
proof -
  have "filter (\<lambda>c. - score c = - k) (sort_key (\<lambda>d. - score d) out)
          = filter (\<lambda>c. - score c = - k) out"
    by (rule sort_key_stable)
  then show ?thesis by (simp add: sort_desc_def)
qed

text \<open>
  C3.  Whatever the listing, the sequence \<open>detect_candidates\<close> returns is in descending
  order of the final score (the score after the platform adjustments), and the candidates
  of any one score appear in it in the order they have in the list before sorting, which
  is the enumeration order of the well-formed ports.
\<close>

theorem detect_candidates_sorted_stable:
  assumes "comports e = Inr ports"
  shows "\<exists>cs. detect_candidates e = Inr cs
           \<and> sorted_wrt (\<lambda>a b. score b \<le> score a) cs
           \<and> (\<forall>k. filter (\<lambda>c. score c = k) cs
                    = filter (\<lambda>c. score c = k) (adjusted e ports))
           \<and> map path (adjusted e ports) = map device (well_formed ports)"
  using assms
  by (simp add: detect_candidates_def sort_desc_descending sort_desc_stable adjusted_def
        platform_adjust_paths collect_paths)

theorem detect_candidates_sorted_stable_witness:
  "comports (demo_env (Inr tie_listing)) = Inr tie_listing
   \<and> (\<exists>cs. detect_candidates (demo_env (Inr tie_listing)) = Inr cs
           \<and> sorted_wrt (\<lambda>a b. score b \<le> score a) cs
           \<and> (\<forall>k. filter (\<lambda>c. score c = k) cs
                    = filter (\<lambda>c. score c = k) (adjusted (demo_env (Inr tie_listing)) tie_listing))
           \<and> map path (adjusted (demo_env (Inr tie_listing)) tie_listing)
               = map device (well_formed tie_listing))"
proof -
  have h: "comports (demo_env (Inr tie_listing)) = Inr tie_listing"
    by (simp add: demo_env_def)
  from detect_candidates_sorted_stable [OF h] h show ?thesis by blast
qed

section \<open>Scoring: the Bluetooth penalty\<close>

lemma score_port_flag:
  "score_port dev v pd desc manu prd True leg = score_port dev v pd desc manu prd False leg - 30"
  by (simp add: score_port_def Let_def)

text \<open>
  C4.  With every other argument equal, \<open>_score_port\<close> gives the Bluetooth-flagged port
  exactly 30 points less.  For two listed ports that differ only in the interface text, one
  flagged as Bluetooth and the other not, the scores differ by 30 before the platform
  adjustments, and after them by 30 plus, when \<open>os.name\<close> is \<open>nt\<close>, a further 25.
\<close>

theorem bluetooth_penalty:
  assumes "build_candidate e (Port p) = Inr cb"
    and "build_candidate e (Port (p\<lparr>interface := i\<rparr>)) = Inr cn"
    and "is_bluetooth cb" and "\<not> is_bluetooth cn"
  shows "score_port dev v pd desc manu prd True leg
           = score_port dev v pd desc manu prd False leg - 30
         \<and> score cb = score cn - 30
         \<and> map score (platform_adjust e [cb])
             = map (\<lambda>x. x - 30 - (if os_name e = ''nt'' then 25 else 0))
                 (map score (platform_adjust e [cn]))"
proof -
  have p: "path cb = path cn" using assms(1,2)
    by (auto simp: build_candidate_def Let_def)
  have s: "score cb = score cn - 30" using assms
    by (auto simp: build_candidate_def Let_def score_port_flag)
  show ?thesis using p s assms(3,4)
    by (simp add: score_port_flag platform_adjust_def Let_def darwin_nudge_def nt_downrank_def)
qed

lemmas demo_eval = build_candidate_def demo_env_def usb_port_def bt_port_def plain_port_def
  Let_def score_port_def or_str_def lower_def lower_char_def upper_def upper_char_def
  known_vendors_def typical_strings_def sublist_Cons_right nt_env_def

theorem bluetooth_penalty_witness:
  "build_candidate nt_env (Port bt_port) = Inr (projr (build_candidate nt_env (Port bt_port)))
   \<and> build_candidate nt_env (Port (bt_port\<lparr>interface := None\<rparr>))
       = Inr (projr (build_candidate nt_env (Port (bt_port\<lparr>interface := None\<rparr>))))
   \<and> is_bluetooth (projr (build_candidate nt_env (Port bt_port)))
   \<and> \<not> is_bluetooth (projr (build_candidate nt_env (Port (bt_port\<lparr>interface := None\<rparr>))))
   \<and> score (projr (build_candidate nt_env (Port bt_port)))
       = score (projr (build_candidate nt_env (Port (bt_port\<lparr>interface := None\<rparr>)))) - 30
   \<and> map score (platform_adjust nt_env [projr (build_candidate nt_env (Port bt_port))])
       = map (\<lambda>x. x - 30 - 25)
           (map score (platform_adjust nt_env
              [projr (build_candidate nt_env (Port (bt_port\<lparr>interface := None\<rparr>)))]))"
proof -
  have h1: "build_candidate nt_env (Port bt_port)
              = Inr (projr (build_candidate nt_env (Port bt_port)))"
    by (simp add: demo_eval)
  have h2: "build_candidate nt_env (Port (bt_port\<lparr>interface := None\<rparr>))
              = Inr (projr (build_candidate nt_env (Port (bt_port\<lparr>interface := None\<rparr>))))"
    by (simp add: demo_eval)
  have h3: "is_bluetooth (projr (build_candidate nt_env (Port bt_port)))"
    by (simp add: demo_eval)
  have h4: "\<not> is_bluetooth (projr (build_candidate nt_env (Port (bt_port\<lparr>interface := None\<rparr>))))"
    by (simp add: demo_eval)
  have h5: "os_name nt_env = ''nt''" by (simp add: nt_env_def)
  from bluetooth_penalty [OF h1 h2 h3 h4] h1 h2 h3 h4 h5 show ?thesis
    by simp
qed

section \<open>An arbiter that is already connected\<close>

text \<open>
  C2.  When the controller holds a session, \<open>auto_connect_or_candidates\<close> returns a port
  with an empty candidate list, and a second call right after returns the same port with an
  empty list; neither call changes the world, so no port is opened, whatever the
  environment of either call.  The port is the one the session's identity names when that
  is not empty, and the explicit port otherwise.
\<close>

theorem connected_idempotent:
  assumes "dc s = Some sess"
  shows "\<exists>port s1.
           auto_connect_or_candidates e1 s w = (Inr (port, []), s1, w)
         \<and> auto_connect_or_candidates e2 s1 w = (Inr (port, []), s1, w)
         \<and> dc s1 = Some sess
         \<and> (\<forall>p. map_of (ident sess) ''port'' = Some p \<and> p \<noteq> [] \<longrightarrow> port = Some (JStr p))
         \<and> (map_of (ident sess) ''port'' = None \<or> map_of (ident sess) ''port'' = Some []
              \<longrightarrow> port = map_option JStr (explicit_port s))"
  using assms by (auto simp: auto_connect_or_candidates_def Let_def py_or_def)

theorem connected_idempotent_witness:
  "dc connected_ctrl = Some demo_session
   \<and> map_of (ident demo_session) ''port'' = Some ''/dev/ttyUSB0''
   \<and> fst (auto_connect_or_candidates (demo_env (Inr single_listing)) connected_ctrl demo_world)
       = Inr (Some (JStr ''/dev/ttyUSB0''), [])
   \<and> snd (snd (auto_connect_or_candidates (demo_env (Inr single_listing)) connected_ctrl
                  demo_world))
       = demo_world
   \<and> fst (auto_connect_or_candidates nt_env
             (fst (snd (auto_connect_or_candidates (demo_env (Inr single_listing)) connected_ctrl
                          demo_world)))
             demo_world)
       = Inr (Some (JStr ''/dev/ttyUSB0''), [])
   \<and> snd (snd (auto_connect_or_candidates nt_env
                  (fst (snd (auto_connect_or_candidates (demo_env (Inr single_listing))
                               connected_ctrl demo_world)))
                  demo_world))
       = demo_world"
proof -
  have h: "dc connected_ctrl = Some demo_session"
    by (simp add: connected_ctrl_def)
  have i: "map_of (ident demo_session) ''port'' = Some ''/dev/ttyUSB0''"
    by (simp add: demo_session_def)
  from connected_idempotent [OF h, of "demo_env (Inr single_listing)" demo_world nt_env]
  obtain port s1 where
      a: "auto_connect_or_candidates (demo_env (Inr single_listing)) connected_ctrl demo_world
            = (Inr (port, []), s1, demo_world)"
    and b: "auto_connect_or_candidates nt_env s1 demo_world = (Inr (port, []), s1, demo_world)"
    and c: "\<forall>p. map_of (ident demo_session) ''port'' = Some p \<and> p \<noteq> []
              \<longrightarrow> port = Some (JStr p)"
    by blast
  from c i have "port = Some (JStr ''/dev/ttyUSB0'')" by simp
  with a b h i show ?thesis by simp
qed

section \<open>The probe throttle\<close>

text \<open>
  C7, as the claim states it, fails: a probe that is skipped is a prior probe too, and it
  records nothing.  With a time of 98 seconds recorded for the path, a probe at 102.95
  seconds is skipped, and the next probe of the path, a tenth of a second later, opens the
  port.
\<close>

theorem skipped_prior_probe_counterexample:
  "probe_port tenth_env ''/dev/ttyUSB0'' 4 probed_ctrl demo_world
     = (False, probed_ctrl, demo_world\<lparr>ticks := 1\<rparr>)
   \<and> monotonic tenth_env (ticks (demo_world\<lparr>ticks := 1\<rparr>))
       - monotonic tenth_env (ticks demo_world) < 5
   \<and> probe_port tenth_env ''/dev/ttyUSB0'' 4 probed_ctrl (demo_world\<lparr>ticks := 1\<rparr>)
       = (True,
          probed_ctrl\<lparr>probe_recent := [''/dev/ttyUSB0'' \<mapsto> 10315 / 100]\<rparr>,
          demo_world\<lparr>opens := 1, ticks := 3, trace := [ProbeOpen ''/dev/ttyUSB0'']\<rparr>)"
  by (simp add: probe_port_def Let_def tenth_env_def demo_env_def demo_world_def
        probed_ctrl_def demo_ctrl_def demo_session_def)

text \<open>
  C7, amended.  Take a prior probe of a path that was carried out, so that it opened the port and
  recorded the clock's reading after its wait.  A probe of the same path made while the
  clock reads less than five seconds more than that reading, nothing else having been
  recorded for the path since, returns false and leaves the controller as it was; the
  world differs only in the clock having been read: no port is opened, so no transient
  session exists.
\<close>

theorem probe_throttled:
  assumes "probe_port e0 port t0 s0 w0 = (ok0, s1, w1)"
    and "opens w1 = Suc (opens w0)"
    and "probe_recent s port = probe_recent s1 port"
    and "monotonic e (ticks w) - monotonic e0 (Suc (ticks w0)) < 5"
  shows "\<exists>w'. probe_port e port timeout_s s w = (False, s, w')
            \<and> opens w' = opens w \<and> trace w' = trace w \<and> cache_file w' = cache_file w"
proof -
  from assms(1,2) have "probe_recent s1 port = Some (monotonic e0 (Suc (ticks w0)))"
    by (auto simp: probe_port_def Let_def split: if_splits)
  with assms(3,4) show ?thesis
    by (simp add: probe_port_def Let_def)
qed

lemmas probe_eval = probe_port_def Let_def nt_env_def demo_env_def demo_world_def
  probed_ctrl_def demo_ctrl_def demo_session_def after_probe_ctrl_def after_probe_world_def

theorem probe_throttled_witness:
  "probe_port nt_env ''/dev/ttyUSB0'' 4 demo_ctrl demo_world
     = (True, after_probe_ctrl, after_probe_world)
   \<and> opens after_probe_world = Suc (opens demo_world)
   \<and> monotonic nt_env (ticks after_probe_world) - monotonic nt_env (Suc (ticks demo_world)) < 5
   \<and> (\<exists>w'. probe_port nt_env ''/dev/ttyUSB0'' 4 after_probe_ctrl after_probe_world
              = (False, after_probe_ctrl, w')
            \<and> opens w' = opens after_probe_world \<and> trace w' = trace after_probe_world
            \<and> cache_file w' = cache_file after_probe_world)"
proof -
  have h1: "probe_port nt_env ''/dev/ttyUSB0'' 4 demo_ctrl demo_world
              = (True, after_probe_ctrl, after_probe_world)"
    by (simp add: probe_eval)
  have h2: "opens after_probe_world = Suc (opens demo_world)"
    by (simp add: after_probe_world_def demo_world_def)
  have h3: "probe_recent after_probe_ctrl ''/dev/ttyUSB0''
              = probe_recent after_probe_ctrl ''/dev/ttyUSB0''" ..
  have h4: "monotonic nt_env (ticks after_probe_world)
              - monotonic nt_env (Suc (ticks demo_world)) < 5"
    by (simp add: nt_env_def demo_env_def after_probe_world_def demo_world_def)
  from probe_throttled [OF h1 h2 h3 h4] h1 h2 h4 show ?thesis by blast
qed

text \<open>
  C10.  A probe either is skipped, and then the controller, its recorded times included, is
  exactly as before and the result is false, or it opens the port, and then the time
  recorded for the path is the clock's reading after the wait.  So after a skipped probe
  the recorded time is still that of the last probe carried out, and a probe made five
  seconds or more after it is carried out.
\<close>

theorem probe_timestamp:
  assumes "probe_port e port timeout_s s w = (ok, s1, w1)"
  shows "(opens w1 = opens w \<longrightarrow> s1 = s \<and> trace w1 = trace w \<and> \<not> ok)
       \<and> (opens w1 \<noteq> opens w \<longrightarrow>
            probe_recent s1 = (probe_recent s)(port \<mapsto> monotonic e (Suc (ticks w)))
            \<and> opens w1 = Suc (opens w) \<and> trace w1 = trace w @ [ProbeOpen port])
       \<and> (opens w1 = opens w \<and> probe_recent s port = Some t_last
            \<and> t_last + 5 \<le> monotonic e2 (ticks w2) \<longrightarrow>
            opens (snd (snd (probe_port e2 port t2 s1 w2))) = Suc (opens w2))"
  using assms by (auto simp: probe_port_def Let_def split: if_splits)

theorem probe_timestamp_witness:
  "probe_port nt_env ''/dev/ttyUSB0'' 4 probed_ctrl demo_world
     = (False, probed_ctrl, demo_world\<lparr>ticks := 1\<rparr>)
   \<and> opens (demo_world\<lparr>ticks := 1\<rparr>) = opens demo_world
   \<and> probe_recent probed_ctrl ''/dev/ttyUSB0'' = Some 98
   \<and> 98 + 5 \<le> monotonic nt_env (ticks (demo_world\<lparr>ticks := 3\<rparr>))
   \<and> opens (snd (snd (probe_port nt_env ''/dev/ttyUSB0'' 4 probed_ctrl (demo_world\<lparr>ticks := 3\<rparr>))))
       = Suc (opens (demo_world\<lparr>ticks := 3\<rparr>))
   \<and> probe_port nt_env ''/dev/ttyUSB0'' 4 demo_ctrl demo_world
       = (True, demo_ctrl\<lparr>probe_recent := [''/dev/ttyUSB0'' \<mapsto> 101]\<rparr>,
          demo_world\<lparr>opens := 1, ticks := 2, trace := [ProbeOpen ''/dev/ttyUSB0'']\<rparr>)
   \<and> opens (demo_world\<lparr>opens := 1, ticks := 2, trace := [ProbeOpen ''/dev/ttyUSB0'']\<rparr>)
       \<noteq> opens demo_world
   \<and> probe_recent (demo_ctrl\<lparr>probe_recent := [''/dev/ttyUSB0'' \<mapsto> 101]\<rparr>)
       = (probe_recent demo_ctrl)(''/dev/ttyUSB0'' \<mapsto> monotonic nt_env (Suc (ticks demo_world)))"
proof -
  have a: "probe_port nt_env ''/dev/ttyUSB0'' 4 probed_ctrl demo_world
             = (False, probed_ctrl, demo_world\<lparr>ticks := 1\<rparr>)"
    by (simp add: probe_eval)
  have a1: "opens (demo_world\<lparr>ticks := 1\<rparr>) = opens demo_world" by simp
  have a2: "probe_recent probed_ctrl ''/dev/ttyUSB0'' = Some 98"
    by (simp add: probed_ctrl_def)
  have a3: "98 + 5 \<le> monotonic nt_env (ticks (demo_world\<lparr>ticks := 3\<rparr>))"
    by (simp add: nt_env_def demo_env_def)
  have b: "probe_port nt_env ''/dev/ttyUSB0'' 4 demo_ctrl demo_world
       = (True, demo_ctrl\<lparr>probe_recent := [''/dev/ttyUSB0'' \<mapsto> 101]\<rparr>,
          demo_world\<lparr>opens := 1, ticks := 2, trace := [ProbeOpen ''/dev/ttyUSB0'']\<rparr>)"
    by (simp add: probe_eval)
  have b1: "opens (demo_world\<lparr>opens := 1, ticks := 2, trace := [ProbeOpen ''/dev/ttyUSB0'']\<rparr>)
       \<noteq> opens demo_world"
    by (simp add: demo_world_def)
  from probe_timestamp [OF a, of 98 nt_env "demo_world\<lparr>ticks := 3\<rparr>" 4] a1 a2 a3
  have one: "opens (snd (snd (probe_port nt_env ''/dev/ttyUSB0'' 4 probed_ctrl (demo_world\<lparr>ticks := 3\<rparr>))))
       = Suc (opens (demo_world\<lparr>ticks := 3\<rparr>))"
    by blast
  from probe_timestamp [OF b] b1
  have two: "probe_recent (demo_ctrl\<lparr>probe_recent := [''/dev/ttyUSB0'' \<mapsto> 101]\<rparr>)
       = (probe_recent demo_ctrl)(''/dev/ttyUSB0'' \<mapsto> monotonic nt_env (Suc (ticks demo_world)))"
    by blast
  from a a1 a2 a3 b b1 one two show ?thesis by blast
qed

section \<open>The preference store\<close>

text \<open>
  C8, as the claim states it, fails twice.  When the cache file cannot be opened for
  writing, the save is dropped and a load after it gives \<open>None\<close>, not the port saved.  And
  a file that holds a number under \<open>last_good_port\<close> loads as that number, not as \<open>None\<close>.
\<close>

theorem store_round_trip_counterexample:
  "fst (load_last_good_port (save_last_good_port denied_env (JStr ''COM7'') demo_world)) = JNull
   \<and> fst (load_last_good_port number_world) = JNum 123"
  by (simp add: load_last_good_port_def save_last_good_port_def load_body_def Let_def
        dict_get_def denied_env_def demo_env_def demo_world_def number_world_def)

text \<open>
  C8, amended.  When the write succeeds, loading after saving a port string gives back
  exactly that string; when the file cannot be opened for writing, the save is dropped and
  a load gives what it gave before.  When the file is missing, cannot be read, is not JSON,
  holds a JSON value that is not an object, or holds an object with nothing, or \<open>null\<close>,
  under \<open>last_good_port\<close>, loading gives \<open>None\<close>; the exception raised inside is caught.
\<close>

theorem store_round_trip:
  shows "(fs_write e = WriteOk \<longrightarrow>
            fst (load_last_good_port (save_last_good_port e (JStr port) w)) = JStr port)
       \<and> (fs_write e = OpenDenied \<longrightarrow>
            fst (load_last_good_port (save_last_good_port e (JStr port) w))
              = fst (load_last_good_port w))
       \<and> (cache_file w2 = Missing \<or> cache_file w2 = Unreadable \<or> cache_file w2 = Garbled
            \<or> (\<exists>v. cache_file w2 = Holds v \<and> (\<forall>kv. v \<noteq> JObj kv)) \<longrightarrow>
            fst (load_last_good_port w2) = JNull)
       \<and> (cache_file w3 = Holds (JObj kv3)
            \<and> (map_of kv3 ''last_good_port'' = None \<or> map_of kv3 ''last_good_port'' = Some JNull)
            \<longrightarrow> fst (load_last_good_port w3) = JNull)"
  by (auto simp: load_last_good_port_def save_last_good_port_def load_body_def Let_def
        dict_get_def split: sum.splits json.splits if_splits)

theorem store_round_trip_witness:
  "fs_write nt_env = WriteOk
   \<and> fst (load_last_good_port (save_last_good_port nt_env (JStr ''COM7'') demo_world))
       = JStr ''COM7''
   \<and> fs_write denied_env = OpenDenied
   \<and> fst (load_last_good_port (save_last_good_port denied_env (JStr ''COM7'') number_world))
       = fst (load_last_good_port number_world)
   \<and> cache_file (demo_world\<lparr>cache_file := Garbled\<rparr>) = Garbled
   \<and> fst (load_last_good_port (demo_world\<lparr>cache_file := Garbled\<rparr>)) = JNull
   \<and> cache_file (demo_world\<lparr>cache_file := Holds (JObj [(''theme'', JStr ''dark'')])\<rparr>)
       = Holds (JObj [(''theme'', JStr ''dark'')])
   \<and> map_of [(''theme'', JStr ''dark'')] ''last_good_port'' = None
   \<and> fst (load_last_good_port (demo_world\<lparr>cache_file := Holds (JObj [(''theme'', JStr ''dark'')])\<rparr>))
       = JNull"
proof -
  have h1: "fs_write nt_env = WriteOk" by (simp add: nt_env_def demo_env_def)
  have h1b: "fs_write denied_env = OpenDenied" by (simp add: denied_env_def)
  have h2: "cache_file (demo_world\<lparr>cache_file := Garbled\<rparr>) = Garbled" by simp
  have h3: "cache_file (demo_world\<lparr>cache_file := Holds (JObj [(''theme'', JStr ''dark'')])\<rparr>)
              = Holds (JObj [(''theme'', JStr ''dark'')])" by simp
  have h4: "map_of [(''theme'', JStr ''dark'')] ''last_good_port'' = None"
    by simp
  from store_round_trip [of nt_env "''COM7''" demo_world "demo_world\<lparr>cache_file := Garbled\<rparr>"
      "demo_world\<lparr>cache_file := Holds (JObj [(''theme'', JStr ''dark'')])\<rparr>"
      "[(''theme'', JStr ''dark'')]"] h1 h2 h3 h4
  have one: "fst (load_last_good_port (save_last_good_port nt_env (JStr ''COM7'') demo_world))
               = JStr ''COM7''
             \<and> fst (load_last_good_port (demo_world\<lparr>cache_file := Garbled\<rparr>)) = JNull
             \<and> fst (load_last_good_port
                      (demo_world\<lparr>cache_file := Holds (JObj [(''theme'', JStr ''dark'')])\<rparr>))
                 = JNull"
    by simp
  from store_round_trip [of denied_env "''COM7''" number_world] h1b
  have two: "fst (load_last_good_port (save_last_good_port denied_env (JStr ''COM7'') number_world))
               = fst (load_last_good_port number_world)"
    by simp
  from one two h1 h1b h2 h3 h4 show ?thesis by simp
qed

section \<open>The preference file and the last-good port\<close>

lemma wao_weaken: "written_after_open None t \<Longrightarrow> written_after_open prev t"
  by (cases t; cases "hd t") auto

lemma wao_append:
  "written_after_open prev a \<Longrightarrow> written_after_open None b \<Longrightarrow> written_after_open prev (a @ b)"
  by (induction prev a rule: written_after_open.induct) (auto simp: wao_weaken)

lemma frame_refl: "last_good_port s' = last_good_port s \<Longrightarrow> frame_step s w s' w"
  by (auto simp: frame_step_def intro: exI[of _ "[]"])

lemma frame_trans:
  assumes "frame_step s w s1 w1" and "frame_step s1 w1 s2 w2"
  shows "frame_step s w s2 w2"
proof -
  from assms(1) obtain t1 where t1: "trace w1 = trace w @ t1" "written_after_open None t1"
      "\<not> list_ex is_read t1" "list_ex is_write t1 \<or> cache_file w1 = cache_file w"
      and l1: "last_good_port s1 = last_good_port s"
    by (auto simp: frame_step_def)
  from assms(2) obtain t2 where t2: "trace w2 = trace w1 @ t2" "written_after_open None t2"
      "\<not> list_ex is_read t2" "list_ex is_write t2 \<or> cache_file w2 = cache_file w1"
      and l2: "last_good_port s2 = last_good_port s1"
    by (auto simp: frame_step_def)
  have "trace w2 = trace w @ (t1 @ t2)" using t1(1) t2(1) by simp
  moreover have "written_after_open None (t1 @ t2)" using t1(2) t2(2) by (rule wao_append)
  moreover have "\<not> list_ex is_read (t1 @ t2)" using t1(3) t2(3) by (auto simp: list_ex_iff)
  moreover have "list_ex is_write (t1 @ t2) \<or> cache_file w2 = cache_file w"
    using t1(4) t2(4) by (auto simp: list_ex_iff)
  ultimately show ?thesis using l1 l2 unfolding frame_step_def by metis
qed

lemma frame_try_connect:
  "try_connect e port s w = (p, s', w') \<Longrightarrow> frame_step s w s' w'"
  by (auto simp: try_connect_def frame_step_def save_last_good_port_def Let_def
        split: sum.splits write_outcome.splits)

lemma frame_probe_port:
  "probe_port e port t s w = (ok, s', w') \<Longrightarrow> frame_step s w s' w'"
  by (auto simp: probe_port_def frame_step_def Let_def split: if_splits)

lemma frame_probe_each:
  "probe_each e cs s w = (vs, s', w') \<Longrightarrow> frame_step s w s' w'"
proof (induction cs arbitrary: s w vs s' w')
  case Nil
  then show ?case by (simp add: frame_refl)
next
  case (Cons c cs)
  obtain ok s1 w1 where a: "probe_port e (path c) 4 s w = (ok, s1, w1)"
    by (metis prod_cases3)
  obtain vs2 s2 w2 where b: "probe_each e cs s1 w1 = (vs2, s2, w2)"
    by (metis prod_cases3)
  from Cons.prems a b have "s' = s2" "w' = w2" by auto
  with frame_probe_port[OF a] Cons.IH[OF b] show ?case by (auto intro: frame_trans)
qed

lemma frame_probe_and_connect:
  assumes "probe_and_connect e cu s w = (r, s', w')"
  shows "frame_step s w s' w'"
proof -
  obtain vs s1 w1 where a: "probe_each e (take 3 cu) s w = (vs, s1, w1)"
    by (metis prod_cases3)
  note f1 = frame_probe_each[OF a]
  show ?thesis
  proof (cases "\<exists>v. vs = [v]")
    case True
    then obtain v where v: "vs = [v]" by blast
    obtain p s2 w2 where b: "try_connect e (JStr (path v)) s1 w1 = (p, s2, w2)"
      by (metis prod_cases3)
    from assms a v b have "s' = s2" "w' = w2"
      by (auto simp: probe_and_connect_def split: if_splits)
    with f1 frame_try_connect[OF b] show ?thesis by (auto intro: frame_trans)
  next
    case False
    with assms a have "s' = s1" "w' = w1"
      by (auto simp: probe_and_connect_def split: list.splits)
    with f1 show ?thesis by simp
  qed
qed

lemma frame_resolve_candidates:
  assumes "resolve_candidates e cands s w = (r, s', w')"
  shows "frame_step s w s' w'"
proof -
  let ?cu = "if filter (\<lambda>c. \<not> is_bluetooth c) cands \<noteq> [] then filter (\<lambda>c. \<not> is_bluetooth c) cands else cands"
  show ?thesis
  proof (cases ?cu)
    case Nil
    with assms have "s' = s" "w' = w" by (auto simp: resolve_candidates_def Let_def)
    then show ?thesis by (simp add: frame_refl)
  next
    case (Cons c rest)
    show ?thesis
    proof (cases "length ?cu = 1 \<and> 40 \<le> score c")
      case True
      obtain p s1 w1 where b: "try_connect e (JStr (path c)) s w = (p, s1, w1)"
        by (metis prod_cases3)
      show ?thesis
      proof (cases "truthy_val p")
        case t: True
        with assms Cons True b have "s' = s1" "w' = w1"
          by (auto simp: resolve_candidates_def Let_def)
        with frame_try_connect[OF b] show ?thesis by simp
      next
        case f: False
        with assms Cons True b have "probe_and_connect e ?cu s1 w1 = (r, s', w')"
          by (auto simp: resolve_candidates_def Let_def)
        from frame_try_connect[OF b] frame_probe_and_connect[OF this] show ?thesis
          by (rule frame_trans)
      qed
    next
      case False
      with assms Cons have "probe_and_connect e ?cu s w = (r, s', w')"
        by (auto simp: resolve_candidates_def Let_def)
      then show ?thesis by (rule frame_probe_and_connect)
    qed
  qed
qed

lemma frame_enumerate_and_resolve:
  assumes "enumerate_and_resolve e s w = (r, s', w')"
  shows "frame_step s w s' w'"
  using assms
  by (auto simp: enumerate_and_resolve_def frame_refl split: sum.splits if_splits
        intro: frame_resolve_candidates)

lemma frame_try_explicit:
  "try_explicit e s w = (p, s', w') \<Longrightarrow> frame_step s w s' w'"
  by (auto simp: try_explicit_def frame_refl split: option.splits if_splits intro: frame_try_connect)

lemma frame_try_last_good:
  "try_last_good e s w = (p, s', w') \<Longrightarrow> frame_step s w s' w'"
  by (auto simp: try_last_good_def frame_refl split: if_splits intro: frame_try_connect)

lemma frame_auto_connect:
  assumes "auto_connect_or_candidates e s w = (r, s', w')"
  shows "frame_step s w s' w'"
proof (cases "dc s")
  case (Some sess)
  with assms show ?thesis
    by (auto simp: auto_connect_or_candidates_def Let_def frame_refl)
next
  case None
  let ?s0 = "s\<lparr>last_error := None\<rparr>"
  have f0: "frame_step s w ?s0 w" by (simp add: frame_refl)
  obtain p1 s1 w1 where a: "try_explicit e ?s0 w = (p1, s1, w1)" by (metis prod_cases3)
  obtain p2 s2 w2 where b: "try_last_good e s1 w1 = (p2, s2, w2)" by (metis prod_cases3)
  note fa = frame_trans[OF f0 frame_try_explicit[OF a]]
  note fb = frame_trans[OF fa frame_try_last_good[OF b]]
  show ?thesis
  proof (cases "truthy_val p1")
    case True
    with assms None a have "s' = s1" "w' = w1"
      by (auto simp: auto_connect_or_candidates_def Let_def)
    with fa show ?thesis by simp
  next
    case n1: False
    show ?thesis
    proof (cases "truthy_val p2")
      case True
      with assms None a b n1 have "s' = s2" "w' = w2"
        by (auto simp: auto_connect_or_candidates_def Let_def)
      with fb show ?thesis by simp
    next
      case False
      with assms None a b n1 have "enumerate_and_resolve e s2 w2 = (r, s', w')"
        by (auto simp: auto_connect_or_candidates_def Let_def)
      from fb frame_enumerate_and_resolve[OF this] show ?thesis by (rule frame_trans)
    qed
  qed
qed

lemmas ctrl_eval = demo_ctrl_def demo_world_def failed_ctrl_def failed_world_def fresh_ctrl_def
  try_explicit_def try_last_good_def try_connect_def save_last_good_port_def
  demo_session_def

lemmas detect_eval = detect_candidates_def adjusted_def platform_adjust_def sort_desc_def
  single_listing_def tie_listing_def ambiguous_listing_def failed_listing_def

text \<open>
  C9.  Construction consults the cache file once: one existence test and, when the file is
  there, one read; the file is left as it was.  A \<open>try_connect\<close> that returns \<open>None\<close>
  leaves the file and the controller's last-good port unchanged and adds only the failed
  open to the trace.  A whole \<open>auto_connect_or_candidates\<close> never reads the file, never
  changes the controller's last-good port, writes the file only right after a successful
  open of the port written, and leaves the file as it was when it writes nothing.
\<close>

theorem preference_file_frame:
  shows "(settings_controller_init x w0 = (s0, w0') \<longrightarrow>
            cache_file w0' = cache_file w0
            \<and> trace w0' = trace w0 @
                (if cache_file w0 = Missing then [FsIsFile] else [FsIsFile, FsRead]))
       \<and> (try_connect e port s w = (None, s', w') \<longrightarrow>
            cache_file w' = cache_file w \<and> last_good_port s' = last_good_port s
            \<and> trace w' = trace w @ [DevOpen port False])
       \<and> (auto_connect_or_candidates e2 s2 w2 = (r, s2', w2') \<longrightarrow>
            last_good_port s2' = last_good_port s2
            \<and> (\<exists>t. trace w2' = trace w2 @ t \<and> \<not> list_ex is_read t
                    \<and> written_after_open None t
                    \<and> (list_ex is_write t \<or> cache_file w2' = cache_file w2)))"
proof -
  have a: "settings_controller_init x w0 = (s0, w0') \<longrightarrow>
            cache_file w0' = cache_file w0
            \<and> trace w0' = trace w0 @
                (if cache_file w0 = Missing then [FsIsFile] else [FsIsFile, FsRead])"
    by (auto simp: settings_controller_init_def load_last_good_port_def Let_def
          split: sum.splits prod.splits)
  have b: "try_connect e port s w = (None, s', w') \<longrightarrow>
            cache_file w' = cache_file w \<and> last_good_port s' = last_good_port s
            \<and> trace w' = trace w @ [DevOpen port False]"
    by (auto simp: try_connect_def split: sum.splits)
  have c: "auto_connect_or_candidates e2 s2 w2 = (r, s2', w2') \<longrightarrow>
            last_good_port s2' = last_good_port s2
            \<and> (\<exists>t. trace w2' = trace w2 @ t \<and> \<not> list_ex is_read t
                    \<and> written_after_open None t
                    \<and> (list_ex is_write t \<or> cache_file w2' = cache_file w2))"
    using frame_auto_connect[of e2 s2 w2 r s2' w2'] by (auto simp: frame_step_def)
  from a b c show ?thesis by blast
qed

theorem preference_file_frame_witness:
  "settings_controller_init None demo_world
     = (fresh_ctrl, demo_world\<lparr>trace := [FsIsFile]\<rparr>)
   \<and> cache_file (demo_world\<lparr>trace := [FsIsFile]\<rparr>) = cache_file demo_world
   \<and> try_connect (demo_env (Inr single_listing)) (JStr ''/dev/ttyS9'') demo_ctrl demo_world
       = (None, failed_ctrl, failed_world)
   \<and> cache_file failed_world = cache_file demo_world
   \<and> last_good_port failed_ctrl = last_good_port demo_ctrl
   \<and> trace failed_world = trace demo_world @ [DevOpen (JStr ''/dev/ttyS9'') False]
   \<and> last_good_port
        (fst (snd (auto_connect_or_candidates (demo_env (Inr single_listing)) demo_ctrl demo_world)))
       = last_good_port demo_ctrl
   \<and> (\<exists>t. trace (snd (snd (auto_connect_or_candidates (demo_env (Inr single_listing))
                               demo_ctrl demo_world)))
             = trace demo_world @ t
           \<and> \<not> list_ex is_read t \<and> written_after_open None t)"
proof -
  let ?e = "demo_env (Inr single_listing)"
  let ?x = "auto_connect_or_candidates ?e demo_ctrl demo_world"
  have h1: "settings_controller_init None demo_world
              = (fresh_ctrl, demo_world\<lparr>trace := [FsIsFile]\<rparr>)"
    by (simp add: settings_controller_init_def load_last_good_port_def load_body_def
          ctrl_eval)
  have h2: "try_connect ?e (JStr ''/dev/ttyS9'') demo_ctrl demo_world
              = (None, failed_ctrl, failed_world)"
    by (simp add: ctrl_eval demo_env_def)
  have h3: "?x = (fst ?x, fst (snd ?x), snd (snd ?x))" by simp
  from preference_file_frame [of None demo_world fresh_ctrl "demo_world\<lparr>trace := [FsIsFile]\<rparr>"
      ?e "JStr ''/dev/ttyS9''" demo_ctrl demo_world failed_ctrl failed_world
      ?e demo_ctrl demo_world "fst ?x" "fst (snd ?x)" "snd (snd ?x)"] h1 h2 h3
  show ?thesis by blast
qed

section \<open>Failure of the listing facility\<close>

text \<open>
  C5, as the claim states it, fails: with a listing facility that raises,
  \<open>detect_candidates\<close> raises, but \<open>auto_connect_or_candidates\<close> returns normally with
  \<open>(None, [])\<close> and records the failure under the code \<open>open_failed\<close>.
\<close>

theorem enumeration_failure_counterexample:
  "detect_candidates (demo_env failed_listing) = Inl (OSError ''listing failed'')
   \<and> auto_connect_or_candidates (demo_env failed_listing) fresh_ctrl demo_world
       = (Inr (None, []),
          fresh_ctrl\<lparr>last_error :=
            Some \<lparr>code = ''open_failed'', detail = ''listing failed'', candidates = None\<rparr>\<rparr>,
          demo_world)"
  by (simp add: auto_connect_or_candidates_def enumerate_and_resolve_def ctrl_eval detect_eval
        demo_env_def)

text \<open>
  C5, amended.  When the listing facility raises, \<open>detect_candidates\<close> raises the same
  exception to its caller; \<open>auto_connect_or_candidates\<close>, once the explicit and the
  last-good attempt have not connected, catches it, returns \<open>(None, [])\<close> and records it
  as the last error with code \<open>open_failed\<close> and the exception's message as detail.
  A listing with malformed entries never aborts the enumeration: the result has one
  candidate for each well-formed port.
\<close>

theorem enumeration_failure_recorded:
  shows "(comports e = Inl ex \<longrightarrow> detect_candidates e = Inl ex)
       \<and> (comports e2 = Inr ports \<longrightarrow>
            (\<exists>cs. detect_candidates e2 = Inr cs
                 \<and> length cs = length (well_formed ports)
                 \<and> set (map path cs) = set (map device (well_formed ports))))
       \<and> (comports e = Inl ex \<and> dc s = None
            \<and> try_explicit e (s\<lparr>last_error := None\<rparr>) w = (None, s1, w1)
            \<and> try_last_good e s1 w1 = (None, s2, w2) \<longrightarrow>
            auto_connect_or_candidates e s w =
              (Inr (None, []),
               s2\<lparr>last_error := Some \<lparr>code = ''open_failed'', detail = str_exn ex,
                                      candidates = None\<rparr>\<rparr>,
               w2))"
proof -
  have a: "comports e = Inl ex \<longrightarrow> detect_candidates e = Inl ex"
    by (simp add: detect_candidates_def)
  have l: "length (sort_desc (adjusted e2 ports)) = length (well_formed ports)"
    using arg_cong[OF collect_paths[of e2 ports], of length] arg_cong[OF platform_adjust_paths[of e2 "collect e2 ports"], of length]
    by (simp add: sort_desc_def adjusted_def)
  have st: "set (map path (sort_desc (adjusted e2 ports))) = set (map device (well_formed ports))"
    using arg_cong[OF collect_paths[of e2 ports], of set] arg_cong[OF platform_adjust_paths[of e2 "collect e2 ports"], of set]
    by (simp add: sort_desc_def adjusted_def)
  have b: "comports e2 = Inr ports \<longrightarrow>
            (\<exists>cs. detect_candidates e2 = Inr cs
                 \<and> length cs = length (well_formed ports)
                 \<and> set (map path cs) = set (map device (well_formed ports)))"
    using l st by (simp add: detect_candidates_def)
  have c: "comports e = Inl ex \<and> dc s = None
            \<and> try_explicit e (s\<lparr>last_error := None\<rparr>) w = (None, s1, w1)
            \<and> try_last_good e s1 w1 = (None, s2, w2) \<longrightarrow>
            auto_connect_or_candidates e s w =
              (Inr (None, []),
               s2\<lparr>last_error := Some \<lparr>code = ''open_failed'', detail = str_exn ex,
                                      candidates = None\<rparr>\<rparr>,
               w2)"
    by (simp add: auto_connect_or_candidates_def Let_def enumerate_and_resolve_def detect_candidates_def)
  from a b c show ?thesis by blast
qed

theorem enumeration_failure_recorded_witness:
  "comports (demo_env failed_listing) = Inl (OSError ''listing failed'')
   \<and> detect_candidates (demo_env failed_listing) = Inl (OSError ''listing failed'')
   \<and> comports (demo_env (Inr single_listing)) = Inr single_listing
   \<and> (\<exists>cs. detect_candidates (demo_env (Inr single_listing)) = Inr cs
           \<and> length cs = length (well_formed single_listing)
           \<and> set (map path cs) = set (map device (well_formed single_listing)))
   \<and> dc demo_ctrl = None
   \<and> try_explicit (demo_env failed_listing) (demo_ctrl\<lparr>last_error := None\<rparr>) demo_world
       = (None, failed_ctrl, failed_world)
   \<and> try_last_good (demo_env failed_listing) failed_ctrl failed_world
       = (None, failed_ctrl, failed_world)
   \<and> auto_connect_or_candidates (demo_env failed_listing) demo_ctrl demo_world
       = (Inr (None, []),
          failed_ctrl\<lparr>last_error :=
            Some \<lparr>code = ''open_failed'', detail = ''listing failed'', candidates = None\<rparr>\<rparr>,
          failed_world)"
proof -
  have h1: "comports (demo_env failed_listing) = Inl (OSError ''listing failed'')"
    by (simp add: demo_env_def failed_listing_def)
  have h2: "comports (demo_env (Inr single_listing)) = Inr single_listing"
    by (simp add: demo_env_def)
  have h3: "dc demo_ctrl = None" by (simp add: demo_ctrl_def)
  have h4: "try_explicit (demo_env failed_listing) (demo_ctrl\<lparr>last_error := None\<rparr>) demo_world
              = (None, failed_ctrl, failed_world)"
    by (simp add: ctrl_eval demo_env_def)
  have h5: "try_last_good (demo_env failed_listing) failed_ctrl failed_world
              = (None, failed_ctrl, failed_world)"
    by (simp add: ctrl_eval)
  have h6: "str_exn (OSError ''listing failed'') = ''listing failed''" by simp
  from enumeration_failure_recorded [of "demo_env failed_listing" "OSError ''listing failed''"
      "demo_env (Inr single_listing)" single_listing demo_ctrl demo_world failed_ctrl failed_world
      failed_ctrl failed_world] h1 h2 h3 h4 h5 h6
  show ?thesis by simp
qed

section \<open>The last error after a failed resolution\<close>

lemma truthy_try_connect:
  "try_connect e port s w = (p, s', w') \<Longrightarrow> truthy_val p \<Longrightarrow>
   p = Some port \<and> json_truthy port"
  by (auto simp: try_connect_def split: sum.splits)

lemma outcome_probe_and_connect:
  assumes "probe_and_connect e cu s w = (r, s', w')" and "cu \<noteq> []"
  shows "outcome_ok r s'"
proof -
  obtain vs s1 w1 where a: "probe_each e (take 3 cu) s w = (vs, s1, w1)"
    by (metis prod_cases3)
  show ?thesis
  proof (cases "\<exists>v. vs = [v]")
    case True
    then obtain v where v: "vs = [v]" by blast
    obtain p s2 w2 where b: "try_connect e (JStr (path v)) s1 w1 = (p, s2, w2)"
      by (metis prod_cases3)
    show ?thesis
    proof (cases "truthy_val p")
      case True
      with truthy_try_connect[OF b] assms a v b show ?thesis
        by (auto simp: probe_and_connect_def outcome_ok_def)
    next
      case False
      with assms a v b show ?thesis
        by (auto simp: probe_and_connect_def outcome_ok_def)
    qed
  next
    case False
    with assms a show ?thesis
      by (auto simp: probe_and_connect_def outcome_ok_def split: list.splits)
  qed
qed

lemma outcome_resolve_candidates:
  assumes "resolve_candidates e cands s w = (r, s', w')" and "cands \<noteq> []"
  shows "outcome_ok r s'"
proof -
  let ?cu = "if filter (\<lambda>c. \<not> is_bluetooth c) cands \<noteq> [] then filter (\<lambda>c. \<not> is_bluetooth c) cands else cands"
  have ne: "?cu \<noteq> []" using assms(2) by simp
  then obtain c rest where Cons: "?cu = c # rest" by (cases ?cu) auto
  show ?thesis
  proof (cases "length ?cu = 1 \<and> 40 \<le> score c")
    case True
    obtain p s1 w1 where b: "try_connect e (JStr (path c)) s w = (p, s1, w1)"
      by (metis prod_cases3)
    show ?thesis
    proof (cases "truthy_val p")
      case t: True
      with truthy_try_connect[OF b] assms Cons True b show ?thesis
        by (auto simp: resolve_candidates_def Let_def outcome_ok_def)
    next
      case f: False
      with assms Cons True b have "probe_and_connect e ?cu s1 w1 = (r, s', w')"
        by (auto simp: resolve_candidates_def Let_def)
      from outcome_probe_and_connect[OF this ne] show ?thesis .
    qed
  next
    case False
    with assms Cons have "probe_and_connect e ?cu s w = (r, s', w')"
      by (auto simp: resolve_candidates_def Let_def)
    from outcome_probe_and_connect[OF this ne] show ?thesis .
  qed
qed

lemma outcome_enumerate_and_resolve:
  assumes "enumerate_and_resolve e s w = (r, s', w')"
  shows "outcome_ok r s'"
proof (cases "detect_candidates e")
  case (Inl ex)
  with assms show ?thesis by (auto simp: enumerate_and_resolve_def outcome_ok_def)
next
  case (Inr cands)
  show ?thesis
  proof (cases "cands = []")
    case True
    with assms Inr show ?thesis by (auto simp: enumerate_and_resolve_def outcome_ok_def)
  next
    case False
    with assms Inr have "resolve_candidates e cands s w = (r, s', w')"
      by (auto simp: enumerate_and_resolve_def)
    from outcome_resolve_candidates[OF this False] show ?thesis .
  qed
qed

lemma outcome_auto_connect:
  assumes "auto_connect_or_candidates e s w = (r, s', w')" and "dc s = None"
  shows "outcome_ok r s'"
proof -
  let ?s0 = "s\<lparr>last_error := None\<rparr>"
  obtain p1 s1 w1 where a: "try_explicit e ?s0 w = (p1, s1, w1)" by (metis prod_cases3)
  obtain p2 s2 w2 where b: "try_last_good e s1 w1 = (p2, s2, w2)" by (metis prod_cases3)
  have ta: "truthy_val p1 \<Longrightarrow> \<exists>q. json_truthy q \<and> p1 = Some q" using a
    by (auto simp: try_explicit_def split: option.splits if_splits dest: truthy_try_connect)
  have tb: "truthy_val p2 \<Longrightarrow> \<exists>q. json_truthy q \<and> p2 = Some q" using b
    by (auto simp: try_last_good_def split: if_splits dest: truthy_try_connect)
  show ?thesis
  proof (cases "truthy_val p1")
    case True
    with assms a ta show ?thesis
      by (auto simp: auto_connect_or_candidates_def Let_def outcome_ok_def)
  next
    case n1: False
    show ?thesis
    proof (cases "truthy_val p2")
      case True
      with assms a b n1 tb show ?thesis
        by (auto simp: auto_connect_or_candidates_def Let_def outcome_ok_def)
    next
      case False
      with assms a b n1 have "enumerate_and_resolve e s2 w2 = (r, s', w')"
        by (auto simp: auto_connect_or_candidates_def Let_def)
      then show ?thesis by (rule outcome_enumerate_and_resolve)
    qed
  qed
qed

text \<open>\<open>auto_connect_or_candidates\<close> always returns: the index error is never reached.\<close>

lemma auto_connect_returns:
  "\<exists>v. fst (auto_connect_or_candidates e s w) = Inr v"
proof (cases "dc s")
  case None
  obtain r s' w' where a: "auto_connect_or_candidates e s w = (r, s', w')"
    by (metis prod_cases3)
  from outcome_auto_connect[OF a None] a show ?thesis
    by (auto simp: outcome_ok_def)
next
  case (Some sess)
  then show ?thesis by (simp add: auto_connect_or_candidates_def Let_def)
qed

lemmas resolve_eval = auto_connect_or_candidates_def enumerate_and_resolve_def
  resolve_candidates_def probe_and_connect_def probe_port_def connect_autodetect_if_single_def
  last_error_query_def

lemma nof_try_connect:
  "try_connect e port s w = (p, s', w') \<Longrightarrow> none_or_open_failed (last_error s) \<Longrightarrow>
   none_or_open_failed (last_error s')"
  by (auto simp: try_connect_def none_or_open_failed_def split: sum.splits)

lemma last_error_probe_port:
  "probe_port e port t s w = (ok, s', w') \<Longrightarrow> last_error s' = last_error s"
  by (auto simp: probe_port_def Let_def split: if_splits)

lemma last_error_probe_each:
  "probe_each e cs s w = (vs, s', w') \<Longrightarrow> last_error s' = last_error s"
proof (induction cs arbitrary: s w vs s' w')
  case Nil
  then show ?case by simp
next
  case (Cons c cs)
  obtain ok s1 w1 where a: "probe_port e (path c) 4 s w = (ok, s1, w1)"
    by (metis prod_cases3)
  obtain vs2 s2 w2 where b: "probe_each e cs s1 w1 = (vs2, s2, w2)"
    by (metis prod_cases3)
  from Cons.prems a b have "s' = s2" by auto
  with last_error_probe_port[OF a] Cons.IH[OF b] show ?case by simp
qed

lemma nof_probe_and_connect:
  assumes "probe_and_connect e cu s w = (r, s', w')"
    and "none_or_open_failed (last_error s)"
  shows "none_or_open_failed (last_error s')"
proof -
  obtain vs s1 w1 where a: "probe_each e (take 3 cu) s w = (vs, s1, w1)"
    by (metis prod_cases3)
  from last_error_probe_each[OF a] assms(2) have n1: "none_or_open_failed (last_error s1)"
    by simp
  show ?thesis
  proof (cases "\<exists>v. vs = [v]")
    case True
    then obtain v where v: "vs = [v]" by blast
    obtain p s2 w2 where b: "try_connect e (JStr (path v)) s1 w1 = (p, s2, w2)"
      by (metis prod_cases3)
    from assms(1) a v b have "s' = s2"
      by (auto simp: probe_and_connect_def split: if_splits)
    with nof_try_connect[OF b n1] show ?thesis by simp
  next
    case False
    with assms(1) a have "s' = s1"
      by (auto simp: probe_and_connect_def split: list.splits)
    with n1 show ?thesis by simp
  qed
qed

lemma nof_resolve_candidates:
  assumes "resolve_candidates e cands s w = (r, s', w')"
    and "none_or_open_failed (last_error s)"
  shows "none_or_open_failed (last_error s')"
proof -
  let ?cu = "if filter (\<lambda>c. \<not> is_bluetooth c) cands \<noteq> []
             then filter (\<lambda>c. \<not> is_bluetooth c) cands else cands"
  show ?thesis
  proof (cases ?cu)
    case Nil
    with assms show ?thesis by (auto simp: resolve_candidates_def Let_def)
  next
    case (Cons c rest)
    show ?thesis
    proof (cases "length ?cu = 1 \<and> 40 \<le> score c")
      case True
      obtain p s1 w1 where b: "try_connect e (JStr (path c)) s w = (p, s1, w1)"
        by (metis prod_cases3)
      note n1 = nof_try_connect[OF b assms(2)]
      show ?thesis
      proof (cases "truthy_val p")
        case t: True
        with assms(1) Cons True b have "s' = s1"
          by (auto simp: resolve_candidates_def Let_def)
        with n1 show ?thesis by simp
      next
        case f: False
        with assms(1) Cons True b have "probe_and_connect e ?cu s1 w1 = (r, s', w')"
          by (auto simp: resolve_candidates_def Let_def)
        from nof_probe_and_connect[OF this n1] show ?thesis .
      qed
    next
      case False
      with assms(1) Cons have "probe_and_connect e ?cu s w = (r, s', w')"
        by (auto simp: resolve_candidates_def Let_def)
      from nof_probe_and_connect[OF this assms(2)] show ?thesis .
    qed
  qed
qed

lemma nof_auto_connect_ambiguous:
  assumes "auto_connect_or_candidates e s w = (Inr (None, cu), s', w')"
    and "cu \<noteq> []" and "dc s = None"
  shows "none_or_open_failed (last_error s')"
proof -
  let ?s0 = "s\<lparr>last_error := None\<rparr>"
  have n0: "none_or_open_failed (last_error ?s0)" by (simp add: none_or_open_failed_def)
  obtain p1 s1 w1 where a: "try_explicit e ?s0 w = (p1, s1, w1)" by (metis prod_cases3)
  obtain p2 s2 w2 where b: "try_last_good e s1 w1 = (p2, s2, w2)" by (metis prod_cases3)
  have n1: "none_or_open_failed (last_error s1)" using a n0
    by (auto simp: try_explicit_def split: option.splits if_splits dest: nof_try_connect)
  have n2: "none_or_open_failed (last_error s2)" using b n1
    by (auto simp: try_last_good_def split: if_splits dest: nof_try_connect)
  have f1: "\<not> truthy_val p1" using assms a
    by (auto simp: auto_connect_or_candidates_def Let_def split: if_splits)
  have f2: "\<not> truthy_val p2" using assms a b f1
    by (auto simp: auto_connect_or_candidates_def Let_def split: if_splits)
  from assms a b f1 f2 have en: "enumerate_and_resolve e s2 w2 = (Inr (None, cu), s', w')"
    by (auto simp: auto_connect_or_candidates_def Let_def)
  obtain cands where dt: "detect_candidates e = Inr cands" and ne: "cands \<noteq> []"
    using en assms(2)
    by (auto simp: enumerate_and_resolve_def split: sum.splits if_splits)
  from en dt ne have "resolve_candidates e cands s2 w2 = (Inr (None, cu), s', w')"
    by (simp add: enumerate_and_resolve_def)
  from nof_resolve_candidates[OF this n2] show ?thesis .
qed

text \<open>
  C6, as the claim states it, fails: with two low-score ports of which none verifies and
  no explicit or last-good port, \<open>auto_connect_or_candidates\<close> hands back the two
  candidates and \<open>last_error()\<close> is \<open>None\<close>.
\<close>

theorem ambiguous_no_error_counterexample:
  "fst (auto_connect_or_candidates (demo_env (Inr ambiguous_listing)) fresh_ctrl demo_world)
     = Inr (None, projr (detect_candidates (demo_env (Inr ambiguous_listing))))
   \<and> map path (projr (detect_candidates (demo_env (Inr ambiguous_listing))))
       = [''/dev/ttyS0'', ''/dev/ttyS1'']
   \<and> last_error_query
        (fst (snd (auto_connect_or_candidates (demo_env (Inr ambiguous_listing)) fresh_ctrl demo_world)))
       = None"
  by (simp add: auto_connect_or_candidates_def enumerate_and_resolve_def resolve_candidates_def
        probe_and_connect_def probe_port_def last_error_query_def ctrl_eval detect_eval demo_eval)

text \<open>
  C6, amended.  From a controller without a session, \<open>connect_autodetect_if_single\<close>
  either returns a truthy connected port or returns \<open>None\<close> with the last error set:
  when \<open>auto_connect_or_candidates\<close> came back without candidates, the record it left,
  with code \<open>open_failed\<close> or \<open>no_candidates\<close>; when it came back with candidates, a
  record with code \<open>multiple_candidates\<close> that carries them.  In that ambiguous case
  \<open>auto_connect_or_candidates\<close> itself leaves either no record or the \<open>open_failed\<close>
  record of an open that failed on the way, which carries no candidates.
\<close>

theorem last_error_after_failure:
  assumes "dc s = None"
    and "connect_autodetect_if_single e s w = (r, s', w')"
  shows "(\<exists>p. json_truthy p \<and> r = Inr (Some p))
       \<or> (r = Inr None \<and>
           (\<exists>cands s1 w1.
              auto_connect_or_candidates e s w = (Inr (None, cands), s1, w1) \<and>
              ((cands = [] \<and> last_error_query s1 = last_error_query s' \<and>
                ((\<exists>d. last_error_query s' =
                        Some \<lparr>code = ''open_failed'', detail = d, candidates = None\<rparr>)
                 \<or> last_error_query s' =
                      Some \<lparr>code = ''no_candidates'', detail = ''No serial devices found'',
                            candidates = None\<rparr>))
               \<or> (cands \<noteq> [] \<and>
                   last_error_query s' =
                     Some \<lparr>code = ''multiple_candidates'',
                           detail = ''Multiple serial devices found'',
                           candidates = Some cands\<rparr> \<and>
                   (last_error_query s1 = None
                    \<or> (\<exists>d. last_error_query s1 =
                            Some \<lparr>code = ''open_failed'', detail = d, candidates = None\<rparr>))))))"
proof -
  obtain r1 s1 w1 where a: "auto_connect_or_candidates e s w = (r1, s1, w1)"
    by (metis prod_cases3)
  from outcome_auto_connect[OF a assms(1)] have "outcome_ok r1 s1" .
  then consider
      (conn) p where "json_truthy p" "r1 = Inr (Some p, [])"
    | (amb) cu where "cu \<noteq> []" "r1 = Inr (None, cu)"
    | (err) "r1 = Inr (None, [])"
        "(\<exists>d. last_error s1 = Some \<lparr>code = ''open_failed'', detail = d, candidates = None\<rparr>)
         \<or> last_error s1 = Some \<lparr>code = ''no_candidates'', detail = ''No serial devices found'',
                                   candidates = None\<rparr>"
    unfolding outcome_ok_def by blast
  then show ?thesis
  proof cases
    case conn
    with assms(2) a show ?thesis by (auto simp: connect_autodetect_if_single_def)
  next
    case amb
    from a amb have a': "auto_connect_or_candidates e s w = (Inr (None, cu), s1, w1)" by simp
    from nof_auto_connect_ambiguous[OF a' amb(1) assms(1)]
    have "last_error s1 = None
          \<or> (\<exists>d. last_error s1 = Some \<lparr>code = ''open_failed'', detail = d, candidates = None\<rparr>)"
      by (simp add: none_or_open_failed_def)
    with assms(2) a amb show ?thesis
      by (auto simp: connect_autodetect_if_single_def last_error_query_def)
  next
    case err
    with assms(2) a show ?thesis
      by (auto simp: connect_autodetect_if_single_def last_error_query_def)
  qed
qed

theorem last_error_after_failure_witness:
  "dc fresh_ctrl = None
   \<and> fst (connect_autodetect_if_single (demo_env (Inr ambiguous_listing)) fresh_ctrl demo_world)
       = Inr None
   \<and> fst (auto_connect_or_candidates (demo_env (Inr ambiguous_listing)) fresh_ctrl demo_world)
       = Inr (None, projr (detect_candidates (demo_env (Inr ambiguous_listing))))
   \<and> last_error_query
        (fst (snd (connect_autodetect_if_single (demo_env (Inr ambiguous_listing))
                     fresh_ctrl demo_world)))
       = Some \<lparr>code = ''multiple_candidates'', detail = ''Multiple serial devices found'',
               candidates = Some (projr (detect_candidates (demo_env (Inr ambiguous_listing))))\<rparr>"
proof -
  let ?e = "demo_env (Inr ambiguous_listing)"
  let ?x = "connect_autodetect_if_single ?e fresh_ctrl demo_world"
  have h1: "dc fresh_ctrl = None" by (simp add: fresh_ctrl_def demo_ctrl_def)
  have h2: "?x = (fst ?x, fst (snd ?x), snd (snd ?x))" by simp
  have f: "fst ?x = Inr None"
    by (simp add: resolve_eval ctrl_eval detect_eval demo_eval)
  have a: "fst (auto_connect_or_candidates ?e fresh_ctrl demo_world)
             = Inr (None, projr (detect_candidates ?e))"
    by (simp add: resolve_eval ctrl_eval detect_eval demo_eval)
  have ne: "projr (detect_candidates ?e) \<noteq> []"
    by (simp add: detect_eval demo_eval)
  from last_error_after_failure [OF h1 h2] f a ne
  have "last_error_query (fst (snd ?x))
       = Some \<lparr>code = ''multiple_candidates'', detail = ''Multiple serial devices found'',
               candidates = Some (projr (detect_candidates ?e))\<rparr>"
    by auto
  with h1 f a show ?thesis by blast
qed

section \<open>A single high-confidence candidate\<close>

lemma try_connect_ok:
  "dev_open e (opens w) port = Inr sess \<Longrightarrow>
   try_connect e port s w =
     (Some port, s\<lparr>dc := Some sess\<rparr>,
      save_last_good_port e port
        (w\<lparr>opens := Suc (opens w), trace := trace w @ [DevOpen port True]\<rparr>))"
  by (simp add: try_connect_def)

text \<open>
  C1, as the claim states it, fails.  On a machine whose cache file cannot be opened for
  writing, with one non-Bluetooth candidate of score 85 whose port opens, the port is
  returned with no candidates but the store is as it was: a load still gives \<open>None\<close>.
  And a single candidate of score 50 whose path is empty and whose port opens is not
  returned: the call hands the candidate back.
\<close>

theorem single_candidate_counterexample:
  "map path (filter (\<lambda>c. \<not> is_bluetooth c) (projr (detect_candidates denied_env)))
     = [''/dev/ttyUSB0'']
   \<and> map score (filter (\<lambda>c. \<not> is_bluetooth c) (projr (detect_candidates denied_env))) = [85]
   \<and> dev_open denied_env 0 (JStr ''/dev/ttyUSB0'') = Inr demo_session
   \<and> fst (auto_connect_or_candidates denied_env fresh_ctrl demo_world)
       = Inr (Some (JStr ''/dev/ttyUSB0''), [])
   \<and> cache_file (snd (snd (auto_connect_or_candidates denied_env fresh_ctrl demo_world)))
       = Missing
   \<and> fst (load_last_good_port
             (snd (snd (auto_connect_or_candidates denied_env fresh_ctrl demo_world))))
       = JNull
   \<and> map path (filter (\<lambda>c. \<not> is_bluetooth c) (projr (detect_candidates empty_path_env))) = [[]]
   \<and> map score (filter (\<lambda>c. \<not> is_bluetooth c) (projr (detect_candidates empty_path_env)))
       = [50]
   \<and> dev_open empty_path_env 0 (JStr []) = Inr demo_session
   \<and> fst (auto_connect_or_candidates empty_path_env fresh_ctrl demo_world)
       = Inr (None, projr (detect_candidates empty_path_env))"
  by (simp add: resolve_eval ctrl_eval detect_eval demo_eval denied_env_def empty_path_env_def
        load_last_good_port_def load_body_def)

text \<open>
  C1, amended.  Take a controller without a session whose explicit and last-good attempts
  do not connect, and an enumeration that leaves exactly one non-Bluetooth candidate, with
  a non-empty path and a score of at least 40.  If opening that path then succeeds,
  \<open>auto_connect_or_candidates\<close> returns the path with an empty candidate list and holds
  the session.  When the write succeeds, the cache file holds that path as the last-good
  port, which a load returns; when the file cannot be opened for writing, it is as it was.
\<close>

theorem single_candidate_connects:
  assumes "dc s = None"
    and "try_explicit e (s\<lparr>last_error := None\<rparr>) w = (None, s1, w1)"
    and "try_last_good e s1 w1 = (None, s2, w2)"
    and "detect_candidates e = Inr cands"
    and "filter (\<lambda>c. \<not> is_bluetooth c) cands = [c]"
    and "40 \<le> score c" and "path c \<noteq> []"
    and "dev_open e (opens w2) (JStr (path c)) = Inr sess"
  shows "\<exists>w'. auto_connect_or_candidates e s w
                 = (Inr (Some (JStr (path c)), []), s2\<lparr>dc := Some sess\<rparr>, w')
            \<and> (fs_write e = WriteOk \<longrightarrow>
                 cache_file w' = Holds (JObj [(''last_good_port'', JStr (path c))])
                 \<and> fst (load_last_good_port w') = JStr (path c))
            \<and> (fs_write e = OpenDenied \<longrightarrow> cache_file w' = cache_file w2)"
proof -
  have ne: "cands \<noteq> []" using assms(5) by auto
  have r: "resolve_candidates e cands s2 w2 =
             (Inr (Some (JStr (path c)), []), s2\<lparr>dc := Some sess\<rparr>,
              save_last_good_port e (JStr (path c))
                (w2\<lparr>opens := Suc (opens w2),
                    trace := trace w2 @ [DevOpen (JStr (path c)) True]\<rparr>))"
    using assms(5,6,7) by (simp add: resolve_candidates_def Let_def try_connect_ok[OF assms(8)])
  have "auto_connect_or_candidates e s w = enumerate_and_resolve e s2 w2"
    using assms(1,2,3) by (simp add: auto_connect_or_candidates_def Let_def)
  also have "\<dots> = resolve_candidates e cands s2 w2"
    using assms(4) ne by (simp add: enumerate_and_resolve_def)
  finally show ?thesis using r
    by (simp add: save_last_good_port_def Let_def load_last_good_port_def load_body_def
          dict_get_def)
qed

theorem single_candidate_connects_witness:
  "dc demo_ctrl = None
   \<and> try_explicit (demo_env (Inr single_listing)) (demo_ctrl\<lparr>last_error := None\<rparr>) demo_world
       = (None, failed_ctrl, failed_world)
   \<and> try_last_good (demo_env (Inr single_listing)) failed_ctrl failed_world
       = (None, failed_ctrl, failed_world)
   \<and> filter (\<lambda>c. \<not> is_bluetooth c) (projr (detect_candidates (demo_env (Inr single_listing))))
       = [usb_cand]
   \<and> 40 \<le> score usb_cand
   \<and> path usb_cand = ''/dev/ttyUSB0''
   \<and> dev_open (demo_env (Inr single_listing)) (opens failed_world) (JStr (path usb_cand))
       = Inr demo_session
   \<and> fs_write (demo_env (Inr single_listing)) = WriteOk
   \<and> (\<exists>w'. auto_connect_or_candidates (demo_env (Inr single_listing)) demo_ctrl demo_world
              = (Inr (Some (JStr ''/dev/ttyUSB0''), []),
                 failed_ctrl\<lparr>dc := Some demo_session\<rparr>, w')
            \<and> cache_file w' = Holds (JObj [(''last_good_port'', JStr ''/dev/ttyUSB0'')])
            \<and> fst (load_last_good_port w') = JStr ''/dev/ttyUSB0'')
   \<and> try_explicit denied_env (demo_ctrl\<lparr>last_error := None\<rparr>) demo_world
       = (None, failed_ctrl, failed_world)
   \<and> fs_write denied_env = OpenDenied
   \<and> (\<exists>w'. auto_connect_or_candidates denied_env demo_ctrl demo_world
              = (Inr (Some (JStr ''/dev/ttyUSB0''), []),
                 failed_ctrl\<lparr>dc := Some demo_session\<rparr>, w')
            \<and> cache_file w' = cache_file failed_world)"
proof -
  let ?e = "demo_env (Inr single_listing)"
  have h1: "dc demo_ctrl = None" by (simp add: demo_ctrl_def)
  have h2: "try_explicit ?e (demo_ctrl\<lparr>last_error := None\<rparr>) demo_world
              = (None, failed_ctrl, failed_world)"
    by (simp add: ctrl_eval demo_env_def)
  have h3: "try_last_good ?e failed_ctrl failed_world = (None, failed_ctrl, failed_world)"
    by (simp add: ctrl_eval)
  have h4: "detect_candidates ?e = Inr (projr (detect_candidates ?e))"
    by (simp add: detect_eval demo_env_def)
  have h5: "filter (\<lambda>c. \<not> is_bluetooth c) (projr (detect_candidates ?e)) = [usb_cand]"
    by (simp add: detect_eval demo_eval usb_cand_def)
  have h6: "40 \<le> score usb_cand" by (simp add: usb_cand_def demo_eval)
  have p: "path usb_cand = ''/dev/ttyUSB0''" by (simp add: usb_cand_def demo_eval)
  have h7: "path usb_cand \<noteq> []" by (simp add: p)
  have h8: "dev_open ?e (opens failed_world) (JStr (path usb_cand)) = Inr demo_session"
    by (simp add: p demo_env_def)
  have h9: "fs_write ?e = WriteOk" by (simp add: demo_env_def)
  have d2: "try_explicit denied_env (demo_ctrl\<lparr>last_error := None\<rparr>) demo_world
              = (None, failed_ctrl, failed_world)"
    by (simp add: ctrl_eval demo_env_def denied_env_def)
  have d3: "try_last_good denied_env failed_ctrl failed_world = (None, failed_ctrl, failed_world)"
    by (simp add: ctrl_eval)
  have d4: "detect_candidates denied_env = Inr (projr (detect_candidates denied_env))"
    by (simp add: detect_eval demo_env_def denied_env_def)
  have d5: "filter (\<lambda>c. \<not> is_bluetooth c) (projr (detect_candidates denied_env)) = [usb_cand]"
    by (simp add: detect_eval demo_eval usb_cand_def denied_env_def)
  have d8: "dev_open denied_env (opens failed_world) (JStr (path usb_cand)) = Inr demo_session"
    by (simp add: p demo_env_def denied_env_def)
  have d9: "fs_write denied_env = OpenDenied" by (simp add: denied_env_def)
  from single_candidate_connects [OF h1 h2 h3 h4 h5 h6 h7 h8] h9 p
  have one: "\<exists>w'. auto_connect_or_candidates ?e demo_ctrl demo_world
              = (Inr (Some (JStr ''/dev/ttyUSB0''), []),
                 failed_ctrl\<lparr>dc := Some demo_session\<rparr>, w')
            \<and> cache_file w' = Holds (JObj [(''last_good_port'', JStr ''/dev/ttyUSB0'')])
            \<and> fst (load_last_good_port w') = JStr ''/dev/ttyUSB0''"
    by simp
  from single_candidate_connects [OF h1 d2 d3 d4 d5 h6 h7 d8] d9 p
  have two: "\<exists>w'. auto_connect_or_candidates denied_env demo_ctrl demo_world
              = (Inr (Some (JStr ''/dev/ttyUSB0''), []),
                 failed_ctrl\<lparr>dc := Some demo_session\<rparr>, w')
            \<and> cache_file w' = cache_file failed_world"
    by simp
  from h1 h2 h3 h5 h6 p h8 h9 one d2 d9 two show ?thesis by simp
qed

end
